theory Spec2Isabelle
  imports Main "HOL-Library.Word" "HOL-Library.AList"
begin

unbundle bit_operations_syntax

section \<open>Python values\<close>

text \<open>
  A Python \<open>str\<close> is a sequence of Unicode code points; it is modelled as a list of
  natural numbers, one per code point, so that \<open>len\<close>, indexing and comparison with a
  one-character literal mean what they mean in Python. \<open>lit\<close> turns an ASCII literal of
  the source into such a string. A \<open>bytes\<close> value is a list of 8-bit words.
\<close>

type_synonym pystr = "nat list"
type_synonym byte = "8 word"

definition lit :: "string \<Rightarrow> pystr" where
  "lit s = map of_char s"

text \<open>
  Exceptions are values: the class of the exception and the text that \<open>str(e)\<close> gives.
  In Python 3 \<open>IOError\<close> is an alias of \<open>OSError\<close>; the source writes \<open>IOError\<close>.
\<close>

datatype exc_class =
  IOError | IndexError | AttributeError | TypeError | KeyError | ValueError
  | StructError | UnicodeError | MarkupError

datatype error = Error exc_class pystr

section \<open>The socket, as the code reads it\<close>

text \<open>
  The receiving side of a connected socket is the list of what the successive calls of
  \<open>sock.recv\<close> will meet: a chunk of bytes that has arrived, or a failure (a timeout,
  a reset) that \<open>recv\<close> raises. When the list is used up the peer has closed the
  connection and \<open>recv\<close> returns the empty bytes object; an empty chunk stands for the
  same. \<open>recv sock n\<close> returns at most \<open>n\<close> bytes of the first chunk and leaves the
  rest of it in place.
\<close>

datatype event = Chunk "byte list" | Fail error

fun recv :: "event list \<Rightarrow> nat \<Rightarrow> error + (byte list \<times> event list)" where
  "recv [] n = Inr ([], [])"
| "recv (Fail e # es) n = Inl e"
| "recv (Chunk c # es) n =
     (if length c \<le> n then Inr (c, es) else Inr (take n c, Chunk (drop n c) # es))"

section \<open>VarInt codec\<close>

text \<open>
  \<open>_pack_varint\<close>: \<open>v = n & 0xFFFFFFFF\<close> is a natural number below \<open>2^32\<close>; the loop
  emits the low seven bits of \<open>v\<close>, with the high bit set while bits remain.
\<close>

function pack_loop :: "nat \<Rightarrow> byte list" where
  "pack_loop v =
     (let b = v AND 0x7F; v' = drop_bit 7 v
      in if v' \<noteq> 0 then of_nat (b OR 0x80) # pack_loop v' else [of_nat b])"
  by pat_completeness auto
termination
proof (relation "measure id")
  show "wf (measure id)" by simp
next
  fix v b v' :: nat
  assume "v' = drop_bit 7 v" and "v' \<noteq> 0"
  then have "v div 128 \<noteq> 0" and v': "v' = v div 128"
    by (simp_all add: drop_bit_eq_div)
  then have "v div 128 < v" by simp
  with v' show "(v', v) \<in> measure id" by simp
qed

declare pack_loop.simps [simp del]

definition pack_varint :: "int \<Rightarrow> byte list" where
  "pack_varint n = pack_loop (nat (n AND 0xFFFFFFFF))"

text \<open>
  \<open>_read_varint\<close>: one byte per \<open>recv(1)\<close>; an empty result raises
  \<open>IOError("Socket closed while reading VarInt")\<close>, a sixth byte raises
  \<open>IOError("VarInt too big")\<close> (the test comes before the test of the continuation
  bit), a byte without the continuation bit ends the loop. The function returns the
  number together with the socket as the call leaves it.
\<close>

function read_loop :: "event list \<Rightarrow> nat \<Rightarrow> nat \<Rightarrow> error + (nat \<times> event list)" where
  "read_loop sock num num_read =
     (case recv sock 1 of
        Inl e \<Rightarrow> Inl e
      | Inr (b, sock') \<Rightarrow>
          (case b of
             [] \<Rightarrow> Inl (Error IOError (lit ''Socket closed while reading VarInt''))
           | b0 # _ \<Rightarrow>
               (let val = unat b0;
                    num' = num OR push_bit (7 * num_read) (val AND 0x7F);
                    num_read' = num_read + 1
                in if num_read' > 5 then Inl (Error IOError (lit ''VarInt too big''))
                   else if val AND 0x80 = 0 then Inr (num', sock')
                   else read_loop sock' num' num_read')))"
  by pat_completeness auto
termination
  by (relation "measure (\<lambda>(sock, num, num_read). 6 - num_read)") simp_all

declare read_loop.simps [simp del]

definition read_varint :: "event list \<Rightarrow> error + (int \<times> event list)" where
  "read_varint sock = map_sum id (\<lambda>(num, sock'). (int num, sock')) (read_loop sock 0 0)"

text \<open>
  What a socket still delivers before it is closed or fails, whatever the chunking, and
  whether it ends by being closed rather than by a failure. Both are used to state
  properties of the readers only.
\<close>

fun avail :: "event list \<Rightarrow> byte list" where
  "avail [] = []"
| "avail (Fail e # es) = []"
| "avail (Chunk [] # es) = []"
| "avail (Chunk c # es) = c @ avail es"

fun ends_closed :: "event list \<Rightarrow> bool" where
  "ends_closed [] = True"
| "ends_closed (Fail e # es) = False"
| "ends_closed (Chunk [] # es) = True"
| "ends_closed (Chunk c # es) = ends_closed es"


section \<open>JSON values and the Python operations the code applies to them\<close>

text \<open>
  Every dictionary of the program (a Status, a server entry, the persisted state) is a
  Python \<open>dict\<close> that \<open>json\<close> reads and writes, typed \<open>Dict[str, Any]\<close> in the source.
  A value is therefore a JSON value as \<open>json.loads\<close> builds it; a \<open>dict\<close> is an
  association list in insertion order, read with \<open>map_of\<close> and written with
  \<open>AList.update\<close> (an existing key keeps its place, a new key goes to the end, as in
  Python). Floats are kept abstract.
\<close>

typedecl pyfloat

datatype json =
  JNull
  | JBool bool
  | JInt int
  | JFloat pyfloat
  | JStr pystr
  | JList "json list"
  | JDict "(pystr \<times> json) list"

text \<open>
  The functions of Python's library that the code calls and that are not part of the
  repository are parameters of the model:
  \<^item> \<open>json_loads\<close>: \<open>json.loads(js.decode("utf-8", errors="replace"))\<close> on the bytes \<open>js\<close>;
  \<^item> \<open>utf8_encode\<close>: \<open>s.encode("utf-8")\<close>;
  \<^item> \<open>int_of_str\<close>, \<open>int_of_float\<close>: \<open>int(x)\<close> for a \<open>str\<close> and for a \<open>float\<close>;
  \<^item> \<open>str_of_float\<close>, \<open>float_nonzero\<close>: \<open>str(x)\<close> and \<open>bool(x)\<close> for a \<open>float\<close>;
  \<^item> \<open>py_repr\<close>: \<open>repr(x)\<close>, which is what \<open>str\<close> gives for a list or a dict;
  \<^item> \<open>sha256_json\<close>: \<open>hashlib.sha256(json.dumps(payload, sort_keys=True).encode("utf-8")).hexdigest()\<close>
    on the dictionary \<open>payload\<close>;
  \<^item> \<open>markup_error\<close>: the exception that Rich raises when \<open>console.print\<close> or
    \<open>console.log\<close> renders a text as console markup (a closing tag that closes nothing,
    say), if it raises one; the texts of the program carry the display name, the
    version name and the error text as they are;
  \<^item> \<open>requests_post\<close>: \<open>requests.post(url, json=payload, timeout=15)\<close>, which raises or
    answers with a status code and a text;
  \<^item> \<open>write_json\<close>: the exception that the file system raises when
    \<open>_atomic_write_json(STATE_FILE, st)\<close> writes the state \<open>st\<close>, if it raises one.
\<close>

record builtins =
  json_loads :: "byte list \<Rightarrow> error + json"
  utf8_encode :: "pystr \<Rightarrow> error + byte list"
  int_of_str :: "pystr \<Rightarrow> error + int"
  int_of_float :: "pyfloat \<Rightarrow> error + int"
  str_of_float :: "pyfloat \<Rightarrow> pystr"
  float_nonzero :: "pyfloat \<Rightarrow> bool"
  py_repr :: "json \<Rightarrow> pystr"
  sha256_json :: "json \<Rightarrow> pystr"
  markup_error :: "pystr \<Rightarrow> error option"
  requests_post :: "json \<Rightarrow> json \<Rightarrow> error + int \<times> pystr"
  write_json :: "json \<Rightarrow> error option"

text \<open>Sequencing of steps that may raise: the first exception ends the computation.\<close>

definition and_then :: "error + 'a \<Rightarrow> ('a \<Rightarrow> error + 'b) \<Rightarrow> error + 'b" where
  "and_then m f = (case m of Inl e \<Rightarrow> Inl e | Inr x \<Rightarrow> f x)"

text \<open>\<open>str(e)\<close> of an exception.\<close>

fun err_str :: "error \<Rightarrow> pystr" where
  "err_str (Error cls msg) = msg"

text \<open>Truth value of an object (\<open>if x\<close>, \<open>not x\<close>, \<open>x or y\<close>).\<close>

fun truthy :: "builtins \<Rightarrow> json \<Rightarrow> bool" where
  "truthy B JNull = False"
| "truthy B (JBool b) = b"
| "truthy B (JInt n) = (n \<noteq> 0)"
| "truthy B (JFloat f) = float_nonzero B f"
| "truthy B (JStr s) = (s \<noteq> [])"
| "truthy B (JList xs) = (xs \<noteq> [])"
| "truthy B (JDict kvs) = (kvs \<noteq> [])"

text \<open>\<open>x or {}\<close>.\<close>

definition or_empty :: "builtins \<Rightarrow> json \<Rightarrow> json" where
  "or_empty B x = (if truthy B x then x else JDict [])"

fun type_name :: "json \<Rightarrow> pystr" where
  "type_name JNull = lit ''NoneType''"
| "type_name (JBool b) = lit ''bool''"
| "type_name (JInt n) = lit ''int''"
| "type_name (JFloat f) = lit ''float''"
| "type_name (JStr s) = lit ''str''"
| "type_name (JList xs) = lit ''list''"
| "type_name (JDict kvs) = lit ''dict''"

text \<open>A name between single quotes (code point 39), as Python's messages print it.\<close>

definition quoted :: "pystr \<Rightarrow> pystr" where
  "quoted s = 39 # s @ [39]"

definition no_attribute :: "json \<Rightarrow> string \<Rightarrow> error" where
  "no_attribute x attr =
     Error AttributeError
       (quoted (type_name x) @ lit '' object has no attribute '' @ quoted (lit attr))"

text \<open>\<open>d.get(k, default)\<close>: only a dict has the method.\<close>

definition py_get :: "json \<Rightarrow> pystr \<Rightarrow> json \<Rightarrow> error + json" where
  "py_get d k dflt =
     (case d of
        JDict kvs \<Rightarrow> Inr (case map_of kvs k of Some v \<Rightarrow> v | None \<Rightarrow> dflt)
      | _ \<Rightarrow> Inl (no_attribute d ''get''))"

text \<open>\<open>d[k]\<close> with a \<open>str\<close> key \<open>k\<close>: a missing key raises \<open>KeyError\<close>, whose text is the
  \<open>repr\<close> of the key; nothing but a dict can be indexed by a string.\<close>

fun not_subscriptable :: "json \<Rightarrow> error" where
  "not_subscriptable (JList xs) =
     Error TypeError (lit ''list indices must be integers or slices, not str'')"
| "not_subscriptable (JStr s) =
     Error TypeError (lit ''string indices must be integers, not '' @ quoted (lit ''str''))"
| "not_subscriptable x =
     Error TypeError (quoted (type_name x) @ lit '' object is not subscriptable'')"

definition py_item :: "builtins \<Rightarrow> json \<Rightarrow> pystr \<Rightarrow> error + json" where
  "py_item B d k =
     (case d of
        JDict kvs \<Rightarrow>
          (case map_of kvs k of
             Some v \<Rightarrow> Inr v
           | None \<Rightarrow> Inl (Error KeyError (py_repr B (JStr k))))
      | _ \<Rightarrow> Inl (not_subscriptable d))"

text \<open>\<open>int(x)\<close>.\<close>

fun py_int :: "builtins \<Rightarrow> json \<Rightarrow> error + int" where
  "py_int B (JInt n) = Inr n"
| "py_int B (JBool b) = Inr (if b then 1 else 0)"
| "py_int B (JFloat f) = int_of_float B f"
| "py_int B (JStr s) = int_of_str B s"
| "py_int B x =
     Inl (Error TypeError
       (lit ''int() argument must be a string, a bytes-like object or a real number, not ''
        @ quoted (type_name x)))"

text \<open>Decimal digits of a natural number, and \<open>str(n)\<close> of an \<open>int\<close>.\<close>

function digits :: "nat \<Rightarrow> pystr" where
  "digits n = (if n < 10 then [48 + n] else digits (n div 10) @ [48 + n mod 10])"
  by pat_completeness auto
termination
  by (relation "measure id") simp_all

declare digits.simps [simp del]

definition str_of_int :: "int \<Rightarrow> pystr" where
  "str_of_int n = (if n < 0 then 45 # digits (nat (- n)) else digits (nat n))"

text \<open>\<open>str(x)\<close>, which is also what an f-string puts for \<open>{x}\<close>.\<close>

fun py_str :: "builtins \<Rightarrow> json \<Rightarrow> pystr" where
  "py_str B JNull = lit ''None''"
| "py_str B (JBool b) = (if b then lit ''True'' else lit ''False'')"
| "py_str B (JInt n) = str_of_int n"
| "py_str B (JFloat f) = str_of_float B f"
| "py_str B (JStr s) = s"
| "py_str B x = py_repr B x"

text \<open>
  \<open>s.strip()\<close>: removes the leading and the trailing white space, which for a \<open>str\<close> is
  the code points for which \<open>str.isspace\<close> holds.
\<close>

definition is_space :: "nat \<Rightarrow> bool" where
  "is_space c =
     ((9 \<le> c \<and> c \<le> 13) \<or> (28 \<le> c \<and> c \<le> 32) \<or> c = 133 \<or> c = 160 \<or> c = 5760
      \<or> (8192 \<le> c \<and> c \<le> 8202) \<or> c = 8232 \<or> c = 8233 \<or> c = 8239 \<or> c = 8287
      \<or> c = 12288)"

definition py_strip :: "pystr \<Rightarrow> pystr" where
  "py_strip s = rev (dropWhile is_space (rev (dropWhile is_space s)))"

section \<open>Status normalizer\<close>

text \<open>
  \<open>_flatten_description\<close>. In a dict the \<open>text\<close> entry counts only when it is a
  \<open>str\<close> and the \<open>extra\<close> entry only when it is a list; the parts are joined in that
  order. Anything that is not \<open>None\<close>, a \<open>str\<close>, a dict or a list goes through \<open>str\<close>.
\<close>

function (sequential) flatten_description :: "builtins \<Rightarrow> json \<Rightarrow> pystr" where
  "flatten_description B JNull = []"
| "flatten_description B (JStr s) = s"
| "flatten_description B (JDict kvs) =
     (case map_of kvs (lit ''text'') of Some (JStr t) \<Rightarrow> t | _ \<Rightarrow> [])
     @ (case map_of kvs (lit ''extra'') of
          Some (JList its) \<Rightarrow> concat (map (flatten_description B) its)
        | _ \<Rightarrow> [])"
| "flatten_description B (JList xs) = concat (map (flatten_description B) xs)"
| "flatten_description B x = py_str B x"
  by pat_completeness auto
termination
proof (relation "measure (\<lambda>(B, desc). size desc)")
  show "wf (measure (\<lambda>(B, desc). size desc))" by simp
next
  fix B :: builtins and kvs :: "(pystr \<times> json) list" and x2 its z
  assume look: "map_of kvs (lit ''extra'') = Some x2" and x2: "x2 = JList its"
    and z: "z \<in> set its"
  have inside: "size v < Suc (size_list (size_prod (\<lambda>_. 0) size) al)"
    if "map_of al k = Some v" for al :: "(pystr \<times> json) list" and k v
    using that by (induction al) (auto split: if_splits)
  from z have "size z < size (JList its)"
    by (induction its) auto
  also from look x2 have "\<dots> < size (JDict kvs)"
    using inside [of kvs "lit ''extra''" "JList its"] by simp
  finally show "((B, z), (B, JDict kvs)) \<in> measure (\<lambda>(B, desc). size desc)" by simp
next
  fix B :: builtins and xs :: "json list" and z
  assume "z \<in> set xs"
  then have "size z < size (JList xs)" by (induction xs) auto
  then show "((B, z), (B, JList xs)) \<in> measure (\<lambda>(B, desc). size desc)" by simp
qed

text \<open>
  \<open>_strip_motd_color_codes\<close>: the loop over the index \<open>i\<close>, with the list \<open>out\<close> of the
  characters kept. The marker is the section sign, code point 167.
\<close>

definition marker :: nat where
  "marker = 167"

function strip_loop :: "pystr \<Rightarrow> nat \<Rightarrow> pystr \<Rightarrow> pystr" where
  "strip_loop s i out =
     (if i < length s then
        (let c = s ! i
         in if c = marker then
              (if i + 1 < length s then strip_loop s (i + 2) out
               else strip_loop s (i + 1) out)
            else strip_loop s (i + 1) (out @ [c]))
      else out)"
  by pat_completeness auto
termination
  by (relation "measure (\<lambda>(s, i, out). length s - i)") simp_all

declare strip_loop.simps [simp del]

definition strip_motd_color_codes :: "pystr \<Rightarrow> pystr" where
  "strip_motd_color_codes s = strip_loop s 0 []"

text \<open>
  The same in the words of the specification: a marker goes together with the one
  character after it, a marker at the very end goes alone, everything else stays.
\<close>

fun strip_pairs :: "pystr \<Rightarrow> pystr" where
  "strip_pairs [] = []"
| "strip_pairs [c] = (if c = marker then [] else [c])"
| "strip_pairs (c # d # cs) =
     (if c = marker then strip_pairs cs else c # strip_pairs (d # cs))"

text \<open>The MOTD as \<open>query_status\<close> computes it from the \<open>description\<close> of the response.\<close>

definition normalize_motd :: "builtins \<Rightarrow> json \<Rightarrow> pystr" where
  "normalize_motd B desc = py_strip (strip_motd_color_codes (flatten_description B desc))"

section \<open>Status protocol client\<close>

text \<open>
  A connection: what the successive calls of \<open>sendall\<close> do (raise, or accept the data;
  past the end of the list every call succeeds), the bytes sent so far, and the
  receiving side.
\<close>

record conn =
  send_results :: "error option list"
  sent :: "byte list"
  incoming :: "event list"

definition sendall :: "conn \<Rightarrow> byte list \<Rightarrow> error + conn" where
  "sendall c data =
     (case send_results c of
        [] \<Rightarrow> Inr (c\<lparr>sent := sent c @ data\<rparr>)
      | None # rs \<Rightarrow> Inr (c\<lparr>send_results := rs, sent := sent c @ data\<rparr>)
      | Some e # rs \<Rightarrow> Inl e)"

text \<open>\<open>_pack_mc_string\<close>; only a \<open>str\<close> has \<open>encode\<close>.\<close>

definition pack_mc_string :: "builtins \<Rightarrow> json \<Rightarrow> error + byte list" where
  "pack_mc_string B s =
     (case s of
        JStr t \<Rightarrow> and_then (utf8_encode B t) (\<lambda>b. Inr (pack_varint (int (length b)) @ b))
      | _ \<Rightarrow> Inl (no_attribute s ''encode''))"

text \<open>\<open>struct.pack(">H", port)\<close>: two bytes, high byte first, for a port of 16 bits.\<close>

definition struct_pack_H :: "int \<Rightarrow> error + byte list" where
  "struct_pack_H port =
     (if 0 \<le> port \<and> port \<le> 65535 then Inr [of_int (port div 256), of_int (port mod 256)]
      else Inl (Error StructError
             (quoted (lit ''H'') @ lit '' format requires 0 <= number <= 65535'')))"

text \<open>The handshake packet of \<open>query_status\<close>, with its own length in front.\<close>

definition handshake :: "builtins \<Rightarrow> json \<Rightarrow> int \<Rightarrow> int \<Rightarrow> error + byte list" where
  "handshake B host port protocol =
     and_then (pack_mc_string B host) (\<lambda>h.
     and_then (struct_pack_H port) (\<lambda>p.
       let data = pack_varint 0 @ pack_varint protocol @ h @ p @ pack_varint 1
       in Inr (pack_varint (int (length data)) @ data)))"

text \<open>\<open>_recv_exact\<close>: \<open>recv\<close> until \<open>n\<close> bytes are there; an empty chunk raises.\<close>

function recv_exact_loop ::
  "event list \<Rightarrow> nat \<Rightarrow> byte list \<Rightarrow> error + (byte list \<times> event list)" where
  "recv_exact_loop sock n data =
     (if length data < n then
        (case recv sock (n - length data) of
           Inl e \<Rightarrow> Inl e
         | Inr (chunk, sock') \<Rightarrow>
             if chunk = [] then Inl (Error IOError (lit ''Socket closed while reading''))
             else recv_exact_loop sock' n (data @ chunk))
      else Inr (data, sock))"
  by pat_completeness auto
termination
  by (relation "measure (\<lambda>(sock, n, data). n - length data)")
    (auto simp add: neq_Nil_conv)

declare recv_exact_loop.simps [simp del]

definition recv_exact :: "event list \<Rightarrow> nat \<Rightarrow> error + (byte list \<times> event list)" where
  "recv_exact sock n = recv_exact_loop sock n []"

text \<open>
  The two VarInt loops that \<open>query_status\<close> runs over the body of the response (packet
  id, then length of the JSON text). They differ in the message of the \<open>IOError\<close> only.
  \<open>body[idx]\<close> past the end raises \<open>IndexError\<close>. The result is the number and the index
  after it.
\<close>

function body_varint ::
  "pystr \<Rightarrow> byte list \<Rightarrow> nat \<Rightarrow> nat \<Rightarrow> nat \<Rightarrow> error + (nat \<times> nat)" where
  "body_varint msg body idx acc shift =
     (if idx < length body then
        (let b = unat (body ! idx);
             idx' = idx + 1;
             acc' = acc OR push_bit shift (b AND 0x7F)
         in if b AND 0x80 = 0 then Inr (acc', idx')
            else (let shift' = shift + 7
                  in if idx' \<ge> length body \<or> shift' > 35 then Inl (Error IOError msg)
                     else body_varint msg body idx' acc' shift'))
      else Inl (Error IndexError (lit ''index out of range'')))"
  by pat_completeness auto
termination
  by (relation "measure (\<lambda>(msg, body, idx, acc, shift). length body - idx)") auto

declare body_varint.simps [simp del]

text \<open>The two dictionaries that \<open>query_status\<close> returns.\<close>

definition status_online :: "pystr \<Rightarrow> int \<Rightarrow> int \<Rightarrow> pystr \<Rightarrow> int \<Rightarrow> json" where
  "status_online motd players_online players_max version_name version_protocol =
     JDict [(lit ''online'', JBool True),
            (lit ''motd'', JStr motd),
            (lit ''players'', JDict [(lit ''online'', JInt players_online),
                                     (lit ''max'', JInt players_max)]),
            (lit ''version'', JDict [(lit ''name'', JStr version_name),
                                     (lit ''protocol'', JInt version_protocol)])]"

definition status_offline :: "pystr \<Rightarrow> json" where
  "status_offline msg = JDict [(lit ''online'', JBool False), (lit ''error'', JStr msg)]"

text \<open>
  \<open>int(version.get("protocol", 0)) if isinstance(version.get("protocol", 0), int) else 0\<close>;
  a \<open>bool\<close> is an instance of \<open>int\<close>.
\<close>

fun protocol_of :: "json \<Rightarrow> int" where
  "protocol_of (JInt n) = n"
| "protocol_of (JBool b) = (if b then 1 else 0)"
| "protocol_of x = 0"

text \<open>
  The second half of the body of the \<open>try\<close> of \<open>query_status\<close>: reading the response
  from the socket and building the Status.
\<close>

definition read_status :: "builtins \<Rightarrow> event list \<Rightarrow> error + json" where
  "read_status B sock =
     and_then (read_varint sock) (\<lambda>(sz, rest).
     and_then (recv_exact rest (nat sz)) (\<lambda>(body, rest).
     and_then (body_varint (lit ''Bad packet id VarInt'') body 0 0 0) (\<lambda>(pid, idx).
     and_then (body_varint (lit ''Bad JSON length VarInt'') body idx 0 0) (\<lambda>(json_len, idx).
     and_then (json_loads B (take json_len (drop idx body))) (\<lambda>data_json.
     and_then (py_get data_json (lit ''description'') JNull) (\<lambda>desc.
     and_then (py_get data_json (lit ''players'') (JDict [])) (\<lambda>p.
     and_then (py_get data_json (lit ''version'') (JDict [])) (\<lambda>v.
       let motd = normalize_motd B desc;
           players = or_empty B p;
           version = or_empty B v
       in
     and_then (and_then (py_get players (lit ''online'') (JInt 0)) (py_int B)) (\<lambda>po.
     and_then (and_then (py_get players (lit ''max'') (JInt 0)) (py_int B)) (\<lambda>pm.
     and_then (py_get version (lit ''name'') (JStr [])) (\<lambda>vn.
     and_then (py_get version (lit ''protocol'') (JInt 0)) (\<lambda>vp.
       Inr (status_online motd po pm (py_str B vn) (protocol_of vp))))))))))))))"

text \<open>
  The body of the \<open>try\<close> of \<open>query_status\<close>. \<open>connect\<close> is what
  \<open>socket.create_connection((host, port), timeout)\<close> does: it raises or gives a
  connection. Timeouts are failures of \<open>connect\<close>, \<open>sendall\<close> and \<open>recv\<close>.
\<close>

definition query_status_try ::
  "builtins \<Rightarrow> (json \<Rightarrow> int \<Rightarrow> error + conn) \<Rightarrow> json \<Rightarrow> int \<Rightarrow> int \<Rightarrow> error + json" where
  "query_status_try B connect host port protocol =
     and_then (connect host port) (\<lambda>sock.
     and_then (handshake B host port protocol) (\<lambda>packet.
     and_then (sendall sock packet) (\<lambda>sock.
     and_then (sendall sock (pack_varint 1 @ [0])) (\<lambda>sock.
       read_status B (incoming sock)))))"

text \<open>\<open>query_status\<close>: whatever the body raises becomes an offline Status.\<close>

definition query_status ::
  "builtins \<Rightarrow> (json \<Rightarrow> int \<Rightarrow> error + conn) \<Rightarrow> json \<Rightarrow> int \<Rightarrow> int \<Rightarrow> json" where
  "query_status B connect host port protocol =
     (case query_status_try B connect host port protocol of
        Inl e \<Rightarrow> status_offline (err_str e)
      | Inr out \<Rightarrow> out)"


section \<open>Fingerprint and summaries\<close>

definition server_key :: "builtins \<Rightarrow> json \<Rightarrow> int \<Rightarrow> pystr" where
  "server_key B host port = py_str B host @ lit '':'' @ str_of_int port"

text \<open>
  \<open>_hash_state\<close>: the dictionary \<open>payload\<close> of six entries, in the order of the source,
  and its digest. Each of the four nested entries evaluates \<open>s.get(...) or {}\<close> again.
\<close>

definition hash_payload :: "builtins \<Rightarrow> json \<Rightarrow> error + json" where
  "hash_payload B s =
     and_then (py_get s (lit ''online'') (JBool False)) (\<lambda>online.
     and_then (py_get s (lit ''motd'') (JStr [])) (\<lambda>motd.
     and_then (py_get s (lit ''players'') JNull) (\<lambda>p1.
     and_then (py_get (or_empty B p1) (lit ''online'') (JInt 0)) (\<lambda>players_online.
     and_then (py_get s (lit ''players'') JNull) (\<lambda>p2.
     and_then (py_get (or_empty B p2) (lit ''max'') (JInt 0)) (\<lambda>players_max.
     and_then (py_get s (lit ''version'') JNull) (\<lambda>v1.
     and_then (py_get (or_empty B v1) (lit ''name'') (JStr [])) (\<lambda>version_name.
     and_then (py_get s (lit ''version'') JNull) (\<lambda>v2.
     and_then (py_get (or_empty B v2) (lit ''protocol'') (JInt 0)) (\<lambda>version_protocol.
       Inr (JDict [(lit ''online'', online),
                   (lit ''motd'', motd),
                   (lit ''players_online'', players_online),
                   (lit ''players_max'', players_max),
                   (lit ''version_name'', version_name),
                   (lit ''version_protocol'', version_protocol)])))))))))))"

definition hash_state :: "builtins \<Rightarrow> json \<Rightarrow> error + pystr" where
  "hash_state B s = and_then (hash_payload B s) (\<lambda>payload. Inr (sha256_json B payload))"

text \<open>\<open>fmt\<close>, the inner function of \<open>_format_fields\<close>, and \<open>_format_fields\<close> itself; the
  dictionary it returns has the keys \<open>Previous\<close> and \<open>Current\<close>, in this order.\<close>

definition fmt :: "builtins \<Rightarrow> json \<Rightarrow> error + pystr" where
  "fmt B s =
     (if \<not> truthy B s then Inr (lit ''(none)'')
      else
        and_then (py_get s (lit ''online'') (JBool False)) (\<lambda>online.
          if \<not> truthy B online then Inr (lit ''Offline'')
          else
            and_then (and_then (py_get s (lit ''players'') (JDict []))
                        (\<lambda>p. py_get p (lit ''online'') (JInt 0))) (\<lambda>pn.
            and_then (and_then (py_get s (lit ''players'') (JDict []))
                        (\<lambda>p. py_get p (lit ''max'') (JInt 0))) (\<lambda>pm.
            and_then (and_then (py_get s (lit ''version'') (JDict []))
                        (\<lambda>v. py_get v (lit ''name'') (JStr []))) (\<lambda>ver.
            and_then (py_get s (lit ''motd'') (JStr [])) (\<lambda>motd.
              Inr (lit ''Online: '' @ py_str B pn @ lit ''/'' @ py_str B pm
                   @ lit '' Version: '' @ py_str B ver
                   @ lit '' MOTD: '' @ py_str B motd)))))))"

definition format_fields :: "builtins \<Rightarrow> json \<Rightarrow> json \<Rightarrow> error + (pystr \<times> pystr) list" where
  "format_fields B old new =
     and_then (fmt B old) (\<lambda>previous.
     and_then (fmt B new) (\<lambda>current.
       Inr [(lit ''Previous'', previous), (lit ''Current'', current)]))"

section \<open>What the engine does besides returning\<close>

text \<open>
  The effects of the notifier and of \<open>monitor_once\<close>, in the order they happen:
  \<^item> \<open>SendDiscord\<close>: \<open>monitor_once\<close> calls \<open>send_discord\<close> with the webhook URL of the
    state, a title, a description and the two fields;
  \<^item> \<open>HttpPost\<close>: \<open>send_discord\<close> calls \<open>requests.post\<close> on a URL with a payload,
    which is the notification going out;
  \<^item> \<open>ConsoleLog\<close>, \<open>ConsolePrint\<close>: a line that \<open>console.log\<close> or \<open>console.print\<close> has
    put on the console;
  \<^item> \<open>SaveState\<close>: \<open>save_state\<close> has written the state to the state file.
\<close>

datatype effect =
  SendDiscord json pystr pystr "(pystr \<times> pystr) list"
  | HttpPost json json
  | ConsoleLog pystr
  | ConsolePrint pystr
  | SaveState json

section \<open>Notifier\<close>

definition discord_payload :: "pystr \<Rightarrow> pystr \<Rightarrow> (pystr \<times> pystr) list \<Rightarrow> json" where
  "discord_payload title description flds =
     JDict [(lit ''content'', JNull),
            (lit ''embeds'', JList [JDict
               [(lit ''title'', JStr title),
                (lit ''description'', JStr description),
                (lit ''fields'', JList (map (\<lambda>(k, v).
                    JDict [(lit ''name'', JStr k), (lit ''value'', JStr v),
                           (lit ''inline'', JBool False)]) flds))]])]"

text \<open>
  \<open>send_discord\<close>: nothing at all without a webhook URL; otherwise one \<open>requests.post\<close>
  of the payload. An answer with a status code of 300 or more is logged inside the
  \<open>try\<close>; whatever the \<open>try\<close> raises (the post, or Rich on that log line) is logged by
  the handler, and what Rich raises on the handler's own line leaves \<open>send_discord\<close>.
  The result is the effects and the exception, if any, that leaves the call.
\<close>

definition send_discord ::
  "builtins \<Rightarrow> json \<Rightarrow> pystr \<Rightarrow> pystr \<Rightarrow> (pystr \<times> pystr) list
   \<Rightarrow> effect list \<times> error option" where
  "send_discord B webhook_url title description flds =
     (if \<not> truthy B webhook_url then ([], None)
      else
        (let payload = discord_payload title description flds;
             post = HttpPost webhook_url payload;
             handler = (\<lambda>e.
               let failed = lit ''[yellow]Discord send failed: '' @ err_str e
               in case markup_error B failed of
                    None \<Rightarrow> ([post, ConsoleLog failed], None)
                  | Some e' \<Rightarrow> ([post], Some e'))
         in case requests_post B webhook_url payload of
              Inl e \<Rightarrow> handler e
            | Inr (status_code, body_text) \<Rightarrow>
                if status_code \<ge> 300 then
                  (let returned = lit ''[yellow]Discord returned '' @ str_of_int status_code
                                  @ lit '': '' @ take 200 body_text
                   in case markup_error B returned of
                        None \<Rightarrow> ([post, ConsoleLog returned], None)
                      | Some e \<Rightarrow> handler e)
                else ([post], None)))"

section \<open>Monitor engine\<close>

text \<open>
  The state is the dictionary that \<open>monitor_once\<close> mutates; the model returns it.
\<close>

text \<open>The first four lines of \<open>monitor_once\<close>: host, port, display name, protocol.\<close>

definition read_target :: "builtins \<Rightarrow> json \<Rightarrow> error + (json \<times> int \<times> json \<times> int)" where
  "read_target B srv =
     and_then (py_get srv (lit ''host'') JNull) (\<lambda>host.
     and_then (and_then (py_get srv (lit ''port'') (JInt 25565)) (py_int B)) (\<lambda>port.
     and_then (py_get srv (lit ''name'') JNull) (\<lambda>nm.
     and_then (and_then (py_get srv (lit ''protocol'') (JInt 767)) (py_int B)) (\<lambda>protocol.
       Inr (host, port,
            (if truthy B nm then nm else JStr (server_key B host port)),
            protocol)))))"

text \<open>\<open>now_hash\<close>, \<open>prev\<close> and \<open>prev_hash\<close>.\<close>

definition compare_baseline ::
  "builtins \<Rightarrow> json \<Rightarrow> pystr \<Rightarrow> json \<Rightarrow> error + (pystr \<times> json \<times> json)" where
  "compare_baseline B state key status =
     and_then (hash_state B status) (\<lambda>now_hash.
     and_then (py_get state (lit ''last'') JNull) (\<lambda>baselines.
     and_then (py_get (or_empty B baselines) key (JDict [])) (\<lambda>prev.
     and_then (py_get prev (lit ''hash'') JNull) (\<lambda>prev_hash.
       Inr (now_hash, prev, prev_hash)))))"

text \<open>The line printed on a change.\<close>

definition change_line :: "builtins \<Rightarrow> json \<Rightarrow> json \<Rightarrow> int \<Rightarrow> json \<Rightarrow> error + pystr" where
  "change_line B name host port status =
     and_then (py_get status (lit ''online'') (JBool False)) (\<lambda>online.
       if truthy B online then
         and_then (and_then (py_item B status (lit ''players''))
                     (\<lambda>p. py_item B p (lit ''online''))) (\<lambda>pn.
         and_then (and_then (py_item B status (lit ''players''))
                     (\<lambda>p. py_item B p (lit ''max''))) (\<lambda>pm.
         and_then (and_then (py_item B status (lit ''version''))
                     (\<lambda>v. py_item B v (lit ''name''))) (\<lambda>ver.
           Inr (lit ''[green][CHANGE][/green] '' @ py_str B name @ lit '' ''
                @ py_str B host @ lit '':'' @ str_of_int port
                @ lit '' -> Online '' @ py_str B pn @ lit ''/'' @ py_str B pm
                @ lit '', '' @ py_str B ver))))
       else
         and_then (py_get status (lit ''error'') (JStr [])) (\<lambda>err.
           Inr (lit ''[red][CHANGE][/red] '' @ py_str B name @ lit '' ''
                @ py_str B host @ lit '':'' @ str_of_int port
                @ lit '' -> Offline ('' @ py_str B err @ lit '')'')))"

text \<open>
  \<open>state.setdefault("last", {})[key] = entry\<close>: a missing \<open>last\<close> is created; a \<open>last\<close>
  that is there and is not a dictionary cannot take the assignment.
\<close>

definition set_baseline :: "json \<Rightarrow> pystr \<Rightarrow> json \<Rightarrow> error + json" where
  "set_baseline state key entry =
     (case state of
        JDict kvs \<Rightarrow>
          (case map_of kvs (lit ''last'') of
             None \<Rightarrow>
               Inr (JDict (AList.update (lit ''last'') (JDict [(key, entry)]) kvs))
           | Some (JDict baselines) \<Rightarrow>
               Inr (JDict (AList.update (lit ''last'')
                             (JDict (AList.update key entry baselines)) kvs))
           | Some (JList xs) \<Rightarrow>
               Inl (Error TypeError (lit ''list indices must be integers or slices, not str''))
           | Some x \<Rightarrow>
               Inl (Error TypeError
                      (quoted (type_name x) @ lit '' object does not support item assignment'')))
      | _ \<Rightarrow> Inl (no_attribute state ''setdefault''))"

text \<open>
  The branch of \<open>monitor_once\<close> taken when the hashes differ: the fields, the call of
  \<open>send_discord\<close>, the line on the console, the new Baseline, the state file. Each step
  may raise, and what is done before stays done: an exception of \<open>console.print\<close> comes
  after the notification and before the Baseline is set and saved.
\<close>

definition changed ::
  "builtins \<Rightarrow> json \<Rightarrow> json \<Rightarrow> json \<Rightarrow> int \<Rightarrow> pystr \<Rightarrow> json \<Rightarrow> pystr \<Rightarrow> json
   \<Rightarrow> effect list \<times> (error + json)" where
  "changed B state name host port key status now_hash prev =
     (case and_then (py_get prev (lit ''data'') JNull) (\<lambda>old.
           and_then (format_fields B old status) (\<lambda>flds.
           and_then (py_get state (lit ''webhook_url'') JNull) (\<lambda>webhook_url.
             Inr (flds, webhook_url)))) of
        Inl e \<Rightarrow> ([], Inl e)
      | Inr (flds, webhook_url) \<Rightarrow>
          (let title = lit ''['' @ py_str B name @ lit ''] Status Changed'';
               desc = py_str B host @ lit '':'' @ str_of_int port;
               call = SendDiscord webhook_url title desc flds
           in case send_discord B webhook_url title desc flds of
                (posted, Some e) \<Rightarrow> (call # posted, Inl e)
              | (posted, None) \<Rightarrow>
                  (case change_line B name host port status of
                     Inl e \<Rightarrow> (call # posted, Inl e)
                   | Inr line \<Rightarrow>
                       (case markup_error B line of
                          Some e \<Rightarrow> (call # posted, Inl e)
                        | None \<Rightarrow>
                            (case set_baseline state key
                                    (JDict [(lit ''hash'', JStr now_hash),
                                            (lit ''data'', status)]) of
                               Inl e \<Rightarrow> (call # posted @ [ConsolePrint line], Inl e)
                             | Inr state' \<Rightarrow>
                                 (case write_json B state' of
                                    Some e \<Rightarrow> (call # posted @ [ConsolePrint line], Inl e)
                                  | None \<Rightarrow>
                                      (call # posted @ [ConsolePrint line, SaveState state'],
                                       Inr state')))))))"

text \<open>
  The branch taken when the hashes are equal: at most the heartbeat line. The line is
  taken as printed; were Rich to raise on it, the call would end there with the state as
  it was, nothing saved and nothing sent.
\<close>

definition unchanged :: "builtins \<Rightarrow> json \<Rightarrow> json \<Rightarrow> effect list \<times> (error + json)" where
  "unchanged B state name =
     (case py_get state (lit ''verbose_status'') JNull of
        Inl e \<Rightarrow> ([], Inl e)
      | Inr verbose \<Rightarrow>
          if truthy B verbose
          then ([ConsolePrint (lit ''[purple][OK][/purple] '' @ py_str B name
                               @ lit '' checked, no change.'')], Inr state)
          else ([], Inr state))"

text \<open>
  \<open>monitor_once\<close>. The result is the list of effects in the order they happen, and
  either the exception that ends the call or the state as the call leaves it.
\<close>

definition monitor_once ::
  "builtins \<Rightarrow> (json \<Rightarrow> int \<Rightarrow> error + conn) \<Rightarrow> json \<Rightarrow> json \<Rightarrow> effect list \<times> (error + json)" where
  "monitor_once B connect state srv =
     (case read_target B srv of
        Inl e \<Rightarrow> ([], Inl e)
      | Inr (host, port, name, protocol) \<Rightarrow>
          if \<not> truthy B host then ([], Inr state)
          else
            (let key = server_key B host port;
                 status = query_status B connect host port protocol
             in case compare_baseline B state key status of
                  Inl e \<Rightarrow> ([], Inl e)
                | Inr (now_hash, prev, prev_hash) \<Rightarrow>
                    if prev_hash \<noteq> JStr now_hash
                    then changed B state name host port key status now_hash prev
                    else unchanged B state name))"

text \<open>
  A run of the monitor: \<open>monitor_loop\<close> calls \<open>monitor_once\<close> on one server after the
  other, pass after pass, each call on the state the previous one left and against the
  network as it is at that moment; an exception ends the run.
\<close>

fun run_polls ::
  "builtins \<Rightarrow> json \<Rightarrow> ((json \<Rightarrow> int \<Rightarrow> error + conn) \<times> json) list
   \<Rightarrow> effect list \<times> (error + json)" where
  "run_polls B state [] = ([], Inr state)"
| "run_polls B state ((connect, srv) # rest) =
     (case monitor_once B connect state srv of
        (effs, Inl e) \<Rightarrow> (effs, Inl e)
      | (effs, Inr state') \<Rightarrow>
          (case run_polls B state' rest of (effs', r) \<Rightarrow> (effs @ effs', r)))"


section \<open>Stand-ins for running the model\<close>

text \<open>
  Every property below holds for all library functions \<open>B\<close> and every network. To run
  the model on a concrete input the parameters need values: a library whose JSON parser
  answers \<open>parsed\<close> whatever the bytes, whose UTF-8 encoder is right on ASCII, whose
  digest tells an online payload from the others, whose console takes every text, whose
  HTTP post is answered with 204 and whose file system takes every write; a network
  that refuses every connection, and one that accepts and delivers the given chunks.
\<close>

definition stub_digest :: "json \<Rightarrow> pystr" where
  "stub_digest payload =
     (case payload of
        JDict kvs \<Rightarrow>
          (case map_of kvs (lit ''online'') of
             Some (JBool True) \<Rightarrow> lit ''digest-of-online''
           | _ \<Rightarrow> lit ''digest-of-offline'')
      | _ \<Rightarrow> lit ''digest-of-offline'')"

definition stub_builtins :: "error + json \<Rightarrow> builtins" where
  "stub_builtins parsed =
     \<lparr>json_loads = (\<lambda>js. parsed),
      utf8_encode = (\<lambda>s. Inr (map of_nat s)),
      int_of_str = (\<lambda>s. Inl (Error ValueError (lit ''invalid literal for int()''))),
      int_of_float = (\<lambda>f. Inr 0),
      str_of_float = (\<lambda>f. lit ''0.0''),
      float_nonzero = (\<lambda>f. False),
      py_repr = (\<lambda>x. lit ''<repr>''),
      sha256_json = stub_digest,
      markup_error = (\<lambda>text. None),
      requests_post = (\<lambda>url payload. Inr (204, [])),
      write_json = (\<lambda>st. None)\<rparr>"

definition refuse :: "json \<Rightarrow> int \<Rightarrow> error + conn" where
  "refuse host port = Inl (Error IOError (lit ''[Errno 111] Connection refused''))"

definition deliver :: "event list \<Rightarrow> json \<Rightarrow> int \<Rightarrow> error + conn" where
  "deliver events host port = Inr \<lparr>send_results = [], sent = [], incoming = events\<rparr>"

text \<open>The response of a server, parsed: the end-to-end scenario of the specification.\<close>

definition server_json :: json where
  "server_json =
     JDict [(lit ''description'', JStr (lit ''A Server'')),
            (lit ''players'', JDict [(lit ''online'', JInt 5), (lit ''max'', JInt 20)]),
            (lit ''version'', JDict [(lit ''name'', JStr (lit ''1.20.1'')),
                                     (lit ''protocol'', JInt 763)])]"

text \<open>The state that \<open>load_state\<close> returns when there is no state file, and a server
  entry as \<open>add_server_flow\<close> writes it.\<close>

definition default_state :: json where
  "default_state =
     JDict [(lit ''webhook_url'', JNull),
            (lit ''interval_sec'', JInt 30),
            (lit ''verbose_status'', JBool False),
            (lit ''servers'', JList []),
            (lit ''last'', JDict [])]"

definition server_mc :: json where
  "server_mc =
     JDict [(lit ''host'', JStr (lit ''mc'')),
            (lit ''port'', JInt 25565),
            (lit ''name'', JNull),
            (lit ''protocol'', JInt 767)]"

text \<open>The same state once \<open>set_webhook_flow\<close> has stored a webhook URL.\<close>

definition webhook_state :: json where
  "webhook_state =
     JDict [(lit ''webhook_url'', JStr (lit ''https://discord.example/hook'')),
            (lit ''interval_sec'', JInt 30),
            (lit ''verbose_status'', JBool False),
            (lit ''servers'', JList []),
            (lit ''last'', JDict [])]"

section \<open>The words of the specification\<close>

text \<open>
  A field of a Status by its path: \<open>players.online\<close> is the entry \<open>online\<close> of the entry
  \<open>players\<close>. The six canonical fields of a Status are the values (or the absence) of
  \<open>online\<close>, \<open>motd\<close>, \<open>players.online\<close>, \<open>players.max\<close>, \<open>version.name\<close> and
  \<open>version.protocol\<close>.
\<close>

fun lookup_path :: "json \<Rightarrow> pystr list \<Rightarrow> json option" where
  "lookup_path x [] = Some x"
| "lookup_path (JDict kvs) (k # ks) =
     (case map_of kvs k of None \<Rightarrow> None | Some v \<Rightarrow> lookup_path v ks)"
| "lookup_path x (k # ks) = None"

definition canonical_fields :: "json \<Rightarrow> json option list" where
  "canonical_fields s =
     map (lookup_path s)
       [[lit ''online''], [lit ''motd''],
        [lit ''players'', lit ''online''], [lit ''players'', lit ''max''],
        [lit ''version'', lit ''name''], [lit ''version'', lit ''protocol'']]"

text \<open>
  A Status value: a dictionary whose \<open>players\<close> and \<open>version\<close> entries, when they are
  there, are dictionaries, or are empty in the sense of \<open>x or {}\<close>. The two dictionaries
  that \<open>query_status\<close> returns are of this kind, with or without further entries.
\<close>

fun is_section :: "builtins \<Rightarrow> json option \<Rightarrow> bool" where
  "is_section B None = True"
| "is_section B (Some (JDict kvs)) = True"
| "is_section B (Some x) = (\<not> truthy B x)"

definition is_status :: "builtins \<Rightarrow> json \<Rightarrow> bool" where
  "is_status B s =
     (case s of
        JDict kvs \<Rightarrow>
          is_section B (map_of kvs (lit ''players'')) \<and> is_section B (map_of kvs (lit ''version''))
      | _ \<Rightarrow> False)"

text \<open>
  The Baselines of a persisted state: the mapping from Target key to Baseline that the
  state holds under \<open>last\<close>. A state without the entry holds no Baseline yet. The key
  under which \<open>monitor_once\<close> polls a server entry, if it polls it at all: an entry
  without a host is skipped.
\<close>

definition baselines :: "json \<Rightarrow> (pystr \<times> json) list option" where
  "baselines state =
     (case state of
        JDict kvs \<Rightarrow>
          (case map_of kvs (lit ''last'') of
             None \<Rightarrow> Some []
           | Some (JDict l) \<Rightarrow> Some l
           | Some x \<Rightarrow> None)
      | _ \<Rightarrow> None)"

definition polled_key :: "builtins \<Rightarrow> json \<Rightarrow> pystr option" where
  "polled_key B srv =
     (case read_target B srv of
        Inl e \<Rightarrow> None
      | Inr (host, port, name, protocol) \<Rightarrow>
          if truthy B host then Some (server_key B host port) else None)"


section \<open>Basic facts\<close>

lemma lit_eq_iff [simp]: "lit s = lit t \<longleftrightarrow> s = t"
  by (simp add: lit_def inj_on_def inj_map_eq_map)

lemma lit_Nil [simp]: "lit [] = []" "lit s = [] \<longleftrightarrow> s = []" "[] = lit s \<longleftrightarrow> s = []"
  by (auto simp add: lit_def)

lemma lit_append: "lit s @ lit t = lit (s @ t)" "lit s @ lit t @ r = lit (s @ t) @ r"
  by (simp_all add: lit_def)

lemma and_then_simps [simp]:
  "and_then (Inl e) f = Inl e" "and_then (Inr x) f = f x"
  by (simp_all add: and_then_def)

lemma and_then_Inr_iff: "and_then m f = Inr y \<longleftrightarrow> (\<exists>x. m = Inr x \<and> f x = Inr y)"
  by (cases m) simp_all

lemma and_then_Inl_iff:
  "and_then m f = Inl e \<longleftrightarrow> m = Inl e \<or> (\<exists>x. m = Inr x \<and> f x = Inl e)"
  by (cases m) simp_all

lemma py_get_dict [simp]:
  "py_get (JDict kvs) k dflt = Inr (case map_of kvs k of Some v \<Rightarrow> v | None \<Rightarrow> dflt)"
  by (simp add: py_get_def)

lemma py_get_Inr_dict: "py_get d k dflt = Inr v \<Longrightarrow> \<exists>kvs. d = JDict kvs"
  by (cases d) (simp_all add: py_get_def)


section \<open>Properties of the VarInt codec\<close>

lemma recv_one:
  assumes "avail sock = b # bs"
  shows "\<exists>sock'. recv sock 1 = Inr ([b], sock') \<and> avail sock' = bs
           \<and> ends_closed sock' = ends_closed sock"
proof (cases sock rule: avail.cases)
  case (4 v va es)
  with assms have b: "v = b" by simp
  show ?thesis
  proof (cases va)
    case Nil
    with 4 b assms show ?thesis by simp
  next
    case (Cons w ws)
    with 4 b assms show ?thesis by simp
  qed
qed (use assms in simp_all)

lemma recv_none:
  assumes "avail sock = []"
  shows "if ends_closed sock then (\<exists>sock'. recv sock 1 = Inr ([], sock'))
         else (\<exists>e. recv sock 1 = Inl e)"
  using assms by (cases sock rule: avail.cases) simp_all

lemma low7_mod: "(v::nat) AND 0x7F = v mod 128"
proof -
  have "v AND mask 7 = take_bit 7 v" by (simp add: take_bit_eq_mask)
  also have "\<dots> = v mod 128" by (simp add: take_bit_eq_mod)
  finally show ?thesis by (simp add: mask_eq_exp_minus_1)
qed

lemma bit7_test: "(x::nat) AND 0x80 = 0 \<longleftrightarrow> even (x div 128)"
  using and_exp_eq_0_iff_not_bit [of x 7] by (simp add: bit_iff_odd)

lemma flag_or: "(v mod 128) OR (0x80::nat) = v mod 128 + 128"
proof -
  have "(v mod 128) AND (0x80::nat) = 0"
    by (simp add: bit7_test)
  then show ?thesis by (simp add: disjunctive_add_eq_or)
qed

lemma low7_split: "(v mod 128) OR push_bit 7 (drop_bit 7 v) = (v::nat)"
proof (rule bit_eqI)
  fix n
  have "v mod 128 = take_bit 7 v" by (simp add: take_bit_eq_mod)
  then show "bit (v mod 128 OR push_bit 7 (drop_bit 7 v)) n = bit v n"
    by (cases "n < 7")
      (auto simp add: bit_or_iff bit_take_bit_iff bit_push_bit_iff bit_drop_bit_eq)
qed


lemma unat_low_byte: "unat (of_nat (v mod 128) :: byte) = v mod 128"
proof -
  have "v mod 128 < 256" using mod_less_divisor [of 128 v] by linarith
  then show ?thesis by (simp add: unat_of_nat)
qed

lemma unat_flag_byte: "unat (of_nat (v mod 128 + 128) :: byte) = v mod 128 + 128"
proof -
  have "v mod 128 < 128" by simp
  then have "v mod 128 + 128 < 256" by linarith
  then have "(v mod 128 + 128) mod 2 ^ LENGTH(8) = v mod 128 + 128" by simp
  then show ?thesis by (simp only: unat_of_nat)
qed

lemma pack_loop_length: "v < 2 ^ (7 * n) \<Longrightarrow> 0 < n \<Longrightarrow> length (pack_loop v) \<le> n"
proof (induction v arbitrary: n rule: pack_loop.induct)
  case (1 v)
  show ?case
  proof (cases "drop_bit 7 v = 0")
    case True
    then show ?thesis using "1.prems" by (simp add: pack_loop.simps [of v])
  next
    case False
    then have "128 \<le> v" by (simp add: drop_bit_eq_div div_eq_0_iff)
    with "1.prems" have "1 < n"
      by (cases "n = 1") auto
    then obtain m where n: "n = Suc m" and m: "0 < m" by (cases n) auto
    have "drop_bit 7 v < 2 ^ (7 * m)"
      using "1.prems"(1) n by (simp add: drop_bit_eq_div less_mult_imp_div_less power_add)
    with "1.IH" [OF refl refl False this m] n False show ?thesis
      by (simp add: pack_loop.simps [of v])
  qed
qed

lemma read_loop_pack:
  "avail sock = pack_loop v @ rest \<Longrightarrow> num_read + length (pack_loop v) \<le> 5 \<Longrightarrow>
   \<exists>sock'. read_loop sock num num_read = Inr (num OR push_bit (7 * num_read) v, sock')
            \<and> avail sock' = rest"
proof (induction v arbitrary: sock num num_read rule: pack_loop.induct)
  case (1 v)
  show ?case
  proof (cases "drop_bit 7 v = 0")
    case True
    then have small: "v < 128" by (simp add: drop_bit_eq_div div_eq_0_iff)
    define b :: byte where "b = of_nat (v mod 128)"
    have ub: "unat b = v" unfolding b_def using small by (simp only: unat_low_byte) simp
    from True have pl: "pack_loop v = [b]"
      unfolding b_def by (simp add: pack_loop.simps [of v] low7_mod)
    with "1.prems" obtain sock' where
      r: "recv sock 1 = Inr ([b], sock')" and a: "avail sock' = rest"
      using recv_one [of sock b rest] by auto
    from "1.prems" pl have nr: "num_read < 5" by simp
    show ?thesis
      using r a nr small
      by (simp add: read_loop.simps [of sock] ub low7_mod bit7_test)
  next
    case False
    define b :: byte where "b = of_nat (v mod 128 + 128)"
    have ub: "unat b = v mod 128 + 128" unfolding b_def by (rule unat_flag_byte)
    from False have pl: "pack_loop v = b # pack_loop (drop_bit 7 v)"
      unfolding b_def by (simp add: pack_loop.simps [of v] low7_mod flag_or)
    with "1.prems" obtain sock' where
      r: "recv sock 1 = Inr ([b], sock')" and a: "avail sock' = pack_loop (drop_bit 7 v) @ rest"
      using recv_one [of sock b "pack_loop (drop_bit 7 v) @ rest"] by auto
    have len: "0 < length (pack_loop (drop_bit 7 v))"
      by (simp add: pack_loop.simps [of "drop_bit 7 v"] Let_def)
    from "1.prems" pl len have nr: "num_read < 4"
      and nr': "Suc num_read + length (pack_loop (drop_bit 7 v)) \<le> 5"
      by (cases "pack_loop (drop_bit 7 v)"; simp)+
    let ?num = "num OR push_bit (7 * num_read) (v mod 128)"
    from "1.IH" [OF refl refl False a nr', of ?num] obtain sock'' where
      rl: "read_loop sock' ?num (Suc num_read)
            = Inr (?num OR push_bit (7 * Suc num_read) (drop_bit 7 v), sock'')"
      and a'': "avail sock'' = rest" by blast
    have "push_bit (7 * num_read) (v mod 128) OR push_bit (7 * Suc num_read) (drop_bit 7 v)
          = push_bit (7 * num_read) (v mod 128 OR push_bit 7 (drop_bit 7 v))"
      by (simp add: add.commute)
    then have join: "?num OR push_bit (7 * Suc num_read) (drop_bit 7 v)
                     = num OR push_bit (7 * num_read) v"
      by (simp add: low7_split or.assoc)
    have flag: "(v mod 128 + 128) div 128 = 1"
      using div_add_self2 [of 128 "v mod 128"] by simp
    show ?thesis
      using r rl a'' nr join
      by (simp add: read_loop.simps [of sock] ub low7_mod bit7_test flag Let_def)
  qed
qed


lemma pack_varint_in_range:
  assumes "0 \<le> n" and "n < 2 ^ 32"
  shows "pack_varint n = pack_loop (nat n)"
proof -
  have "n AND mask 32 = n"
    using assms by (simp add: take_bit_eq_mask [symmetric] take_bit_int_eq_self)
  then show ?thesis by (simp add: pack_varint_def mask_eq_exp_minus_1)
qed

lemma read_pack_u32:
  assumes "0 \<le> n" and "n < 2 ^ 32" and "avail sock = pack_varint n @ rest"
  shows "\<exists>sock'. read_varint sock = Inr (n, sock') \<and> avail sock' = rest"
proof -
  have "nat n < 2 ^ 32" using assms(1,2) by (simp add: nat_less_iff)
  then have "nat n < 2 ^ (7 * 5)" by simp
  then have "length (pack_loop (nat n)) \<le> 5" by (rule pack_loop_length) simp
  with read_loop_pack [of sock "nat n" rest 0 0] assms
  show ?thesis by (auto simp add: read_varint_def pack_varint_in_range)
qed

lemma read_loop_too_big:
  "6 - num_read \<le> length (avail sock) \<Longrightarrow> num_read \<le> 5 \<Longrightarrow>
   \<forall>b \<in> set (take (6 - num_read) (avail sock)). unat b AND 0x80 \<noteq> 0 \<Longrightarrow>
   read_loop sock num num_read = Inl (Error IOError (lit ''VarInt too big''))"
proof (induction "5 - num_read" arbitrary: sock num num_read)
  case 0
  then have k: "num_read = 5" by simp
  with "0.prems" obtain b bs where "avail sock = b # bs" by (cases "avail sock") auto
  then obtain sock' where "recv sock 1 = Inr ([b], sock')" using recv_one by blast
  with k show ?case by (simp add: read_loop.simps [of sock])
next
  case (Suc m)
  then have k: "num_read < 5" and m: "m = 5 - Suc num_read" by simp_all
  from Suc.prems k obtain b bs where a: "avail sock = b # bs" by (cases "avail sock") auto
  then obtain sock' where r: "recv sock 1 = Inr ([b], sock')" and a': "avail sock' = bs"
    using recv_one by blast
  from k have split: "6 - num_read = Suc (6 - Suc num_read)" by simp
  from Suc.prems(3) a have flag: "unat b AND 0x80 \<noteq> 0"
    and rest: "\<forall>b \<in> set (take (6 - Suc num_read) bs). unat b AND 0x80 \<noteq> 0"
    unfolding split by simp_all
  from Suc.prems(1) a split have len: "6 - Suc num_read \<le> length bs" by simp
  have "read_loop sock' (num OR push_bit (7 * num_read) (unat b AND 0x7F)) (Suc num_read)
          = Inl (Error IOError (lit ''VarInt too big''))"
    using Suc.hyps(1) [OF m] len k rest a' by simp
  with r k flag show ?case by (simp add: read_loop.simps [of sock] Let_def)
qed

lemma read_loop_cut_short:
  "length (avail sock) + num_read < 6 \<Longrightarrow>
   \<forall>b \<in> set (avail sock). unat b AND 0x80 \<noteq> 0 \<Longrightarrow>
   (ends_closed sock \<longrightarrow> read_loop sock num num_read
       = Inl (Error IOError (lit ''Socket closed while reading VarInt'')))
   \<and> (\<exists>e. read_loop sock num num_read = Inl e)"
proof (induction "avail sock" arbitrary: sock num num_read)
  case Nil
  then have "avail sock = []" by simp
  from recv_none [OF this] show ?case
    by (auto simp add: read_loop.simps [of sock] split: if_splits)
next
  case (Cons b bs)
  from Cons.hyps(2) obtain sock' where r: "recv sock 1 = Inr ([b], sock')"
    and a': "avail sock' = bs" and c: "ends_closed sock' = ends_closed sock"
    using recv_one [of sock b bs] by auto
  from Cons.prems Cons.hyps(2) [symmetric] have k: "num_read < 5"
    and flag: "unat b AND 0x80 \<noteq> 0"
    and len: "length (avail sock') + Suc num_read < 6"
    and rest: "\<forall>b \<in> set (avail sock'). unat b AND 0x80 \<noteq> 0"
    using a' by simp_all
  from Cons.hyps(1) [OF a' [symmetric] len rest,
      of "num OR push_bit (7 * num_read) (unat b AND 0x7F)"]
  show ?case using r k flag c by (simp add: read_loop.simps [of sock] Let_def)
qed

text \<open>
  Claim C5 (VarInt round trip). For every integer \<open>n\<close> with \<open>0 \<le> n \<le> 2^31 - 1\<close>,
  \<open>_read_varint\<close> on a socket that delivers the bytes of \<open>_pack_varint(n)\<close>, in
  whatever chunks and followed by whatever else, returns \<open>n\<close> and leaves exactly what
  follows those bytes.
\<close>

theorem varint_round_trip:
  assumes "0 \<le> n" and "n \<le> 2 ^ 31 - 1" and "avail sock = pack_varint n @ rest"
  shows "\<exists>sock'. read_varint sock = Inr (n, sock') \<and> avail sock' = rest"
  using assms(1) _ assms(3)
proof (rule read_pack_u32)
  from assms(2) show "n < 2 ^ 32" by simp
qed

theorem varint_round_trip_witness:
  "(0::int) \<le> 300 \<and> (300::int) \<le> 2 ^ 31 - 1
   \<and> avail [Chunk [0xAC], Chunk [0x02, 0x07]] = pack_varint 300 @ [0x07]
   \<and> (\<exists>sock'. read_varint [Chunk [0xAC], Chunk [0x02, 0x07]] = Inr (300, sock')
                \<and> avail sock' = [0x07])"
proof -
  have p: "pack_varint 300 = [0xAC, 0x02]"
    by (simp add: pack_varint_def pack_loop.simps)
  have a: "avail [Chunk [0xAC], Chunk [0x02, 0x07]] = pack_varint 300 @ [0x07]"
    by (simp add: p)
  from varint_round_trip [OF _ _ a] a show ?thesis by simp
qed

text \<open>
  Claim C6 (VarInt decoding fails). When every one of the first six bytes the socket
  delivers has the continuation bit set, \<open>_read_varint\<close> raises
  \<open>IOError("VarInt too big")\<close> on reading the sixth. When the socket delivers fewer
  than six bytes, all with the continuation bit set, and then ends, \<open>_read_varint\<close>
  raises as well: \<open>IOError("Socket closed while reading VarInt")\<close> if the stream ends
  by being closed, the failure of \<open>recv\<close> itself otherwise.
\<close>

theorem varint_decode_fails:
  assumes "\<forall>b \<in> set (take 6 (avail sock)). unat b AND 0x80 \<noteq> 0"
  shows "(6 \<le> length (avail sock) \<longrightarrow>
            read_varint sock = Inl (Error IOError (lit ''VarInt too big'')))
       \<and> (length (avail sock) < 6 \<longrightarrow> ends_closed sock \<longrightarrow>
            read_varint sock = Inl (Error IOError (lit ''Socket closed while reading VarInt'')))
       \<and> (\<exists>e. read_varint sock = Inl e)"
proof (cases "6 \<le> length (avail sock)")
  case True
  with assms read_loop_too_big [of 0 sock 0] show ?thesis
    by (simp add: read_varint_def)
next
  case False
  with assms read_loop_cut_short [of sock 0 0] show ?thesis
    by (auto simp add: read_varint_def)
qed

theorem varint_decode_fails_witness:
  "read_varint [Chunk [0x80, 0xFF, 0x81], Chunk [0x80, 0x80, 0x80, 0x01]]
       = Inl (Error IOError (lit ''VarInt too big''))
   \<and> read_varint [Chunk [0x80, 0xFF]]
       = Inl (Error IOError (lit ''Socket closed while reading VarInt''))"
proof -
  let ?s = "[Chunk [0x80, 0xFF, 0x81], Chunk [0x80, 0x80, 0x80, 0x01]]"
  let ?t = "[Chunk [0x80, 0xFF :: byte]]"
  have h: "\<forall>b \<in> set (take 6 (avail ?s)). unat b AND 0x80 \<noteq> 0" by simp
  have g: "\<forall>b \<in> set (take 6 (avail ?t)). unat b AND 0x80 \<noteq> 0" by simp
  from varint_decode_fails [OF h] varint_decode_fails [OF g] show ?thesis by simp
qed

section \<open>Properties of the Status normalizer\<close>


lemma strip_pairs_keep: "c \<noteq> marker \<Longrightarrow> strip_pairs (c # cs) = c # strip_pairs cs"
  by (cases cs) simp_all

lemma strip_loop_eq: "i \<le> length s \<Longrightarrow> strip_loop s i out = out @ strip_pairs (drop i s)"
proof (induction s i out rule: strip_loop.induct)
  case (1 s i out)
  show ?case
  proof (cases "i < length s")
    case False
    with "1.prems" show ?thesis by (subst strip_loop.simps) (simp add: Let_def)
  next
    case True
    then have d: "drop i s = s ! i # drop (Suc i) s" by (simp add: Cons_nth_drop_Suc)
    show ?thesis
    proof (cases "s ! i = marker")
      case False
      with True "1.IH"(3) [OF True refl False] d show ?thesis
        by (subst strip_loop.simps) (simp add: strip_pairs_keep Let_def)
    next
      case m: True
      show ?thesis
      proof (cases "i + 1 < length s")
        case True
        then have "drop (Suc i) s = s ! Suc i # drop (i + 2) s"
          by (simp add: Cons_nth_drop_Suc)
        with d m True \<open>i < length s\<close> "1.IH"(1) [OF \<open>i < length s\<close> refl m True]
        show ?thesis by (subst strip_loop.simps) (simp add: Let_def)
      next
        case False
        with \<open>i < length s\<close> have "drop (Suc i) s = []" by simp
        with d m False \<open>i < length s\<close> "1.IH"(2) [OF \<open>i < length s\<close> refl m False]
        show ?thesis by (subst strip_loop.simps) (simp add: Let_def)
      qed
    qed
  qed
qed

lemma strip_is_strip_pairs: "strip_motd_color_codes s = strip_pairs s"
  by (simp add: strip_motd_color_codes_def strip_loop_eq)

lemma strip_pairs_plain: "marker \<notin> set a \<Longrightarrow> strip_pairs (a @ rest) = a @ strip_pairs rest"
  by (induction a) (simp_all add: strip_pairs_keep)

lemma py_strip_ends:
  "\<exists>pre post. s = pre @ py_strip s @ post \<and> list_all is_space pre \<and> list_all is_space post"
proof -
  let ?t = "dropWhile is_space s"
  have 1: "s = takeWhile is_space s @ ?t" by simp
  have "rev (takeWhile is_space (rev ?t) @ dropWhile is_space (rev ?t)) = rev (rev ?t)"
    by (simp only: takeWhile_dropWhile_id)
  then have 3: "?t = py_strip s @ rev (takeWhile is_space (rev ?t))"
    by (simp only: rev_append rev_rev_ident py_strip_def)
  have a: "list_all is_space (takeWhile is_space s)"
    by (simp add: list_all_iff) (meson set_takeWhileD)
  have b: "list_all is_space (rev (takeWhile is_space (rev ?t)))"
    by (simp add: list_all_iff) (meson set_takeWhileD)
  from 1 3 have "s = takeWhile is_space s @ py_strip s @ rev (takeWhile is_space (rev ?t))"
    by simp
  with a b show ?thesis by blast
qed

lemma py_strip_trimmed:
  "\<not> (\<exists>c cs. py_strip s = c # cs \<and> is_space c)"
  "\<not> (\<exists>c cs. py_strip s = cs @ [c] \<and> is_space c)"
proof -
  let ?t = "dropWhile is_space s"
  let ?u = "dropWhile is_space (rev ?t)"
  have u: "py_strip s = rev ?u" by (simp add: py_strip_def)
  show "\<not> (\<exists>c cs. py_strip s = cs @ [c] \<and> is_space c)"
  proof
    assume "\<exists>c cs. py_strip s = cs @ [c] \<and> is_space c"
    then obtain c cs where "rev ?u = cs @ [c]" and c: "is_space c" using u by auto
    then have "?u = c # rev cs" by (metis rev_eq_Cons_iff rev_rev_ident)
    then have "\<not> is_space c" by (metis hd_dropWhile list.discI list.sel(1))
    with c show False by simp
  qed
  show "\<not> (\<exists>c cs. py_strip s = c # cs \<and> is_space c)"
  proof
    assume "\<exists>c cs. py_strip s = c # cs \<and> is_space c"
    then obtain c cs where e: "rev ?u = c # cs" and c: "is_space c" using u by auto
    then have "?u = rev cs @ [c]" by (metis rev.simps(2) rev_rev_ident)
    then have "c \<in> set ?u" by simp
    then have "c \<in> set (rev ?t)" by (meson set_dropWhileD)
    then have ct: "c \<in> set ?t" by simp
    from e have ne: "?u \<noteq> []" by auto
    have "\<exists>zs. rev ?t = zs @ ?u" by (metis takeWhile_dropWhile_id)
    then obtain zs where "rev ?t = zs @ ?u" by blast
    then have "?t = rev ?u @ rev zs" by (metis rev_append rev_rev_ident)
    with e have "?t = c # (cs @ rev zs)" by simp
    then have "\<not> is_space c" by (metis hd_dropWhile list.discI list.sel(1))
    with c show False by simp
  qed
qed

lemma flatten_example:
  "flatten_description B
     (JDict [(lit ''text'', JStr (lit ''A'')),
             (lit ''extra'', JList [JDict [(lit ''text'', JStr (lit ''B''))], JStr (lit ''C'')])])
   = lit ''ABC''"
  by (simp add: lit_append)

text \<open>
  Claim C7 (Status normalizer). \<open>_flatten_description\<close> returns a string as it is,
  joins the flattened elements of an array in order, and for an object joins its
  \<open>text\<close> (when there is one) and then the flattened entries of its \<open>extra\<close> list (when
  there is one), wherever the two keys stand in the object.
  \<open>_strip_motd_color_codes\<close> is \<open>strip_pairs\<close>: text without a marker is kept, a marker
  is removed together with the one character after it, a marker at the very end is
  removed alone. The MOTD is the flattened description, stripped in this way and then
  trimmed: what \<open>strip\<close> removes at both ends is white space and nothing else, and the
  result neither starts nor ends with white space. The object
  \<open>{"text":"A","extra":[{"text":"B"},"C"]}\<close> flattens to \<open>ABC\<close>.
\<close>

theorem normalizer_flattens_and_strips:
  "flatten_description B (JStr s) = s
   \<and> flatten_description B (JList xs) = concat (map (flatten_description B) xs)
   \<and> (map_of kvs (lit ''text'') = Some (JStr t) \<longrightarrow> map_of kvs (lit ''extra'') = Some (JList ex)
        \<longrightarrow> flatten_description B (JDict kvs) = t @ concat (map (flatten_description B) ex))
   \<and> (map_of kvs (lit ''text'') = Some (JStr t) \<longrightarrow> map_of kvs (lit ''extra'') = None
        \<longrightarrow> flatten_description B (JDict kvs) = t)
   \<and> (map_of kvs (lit ''text'') = None \<longrightarrow> map_of kvs (lit ''extra'') = Some (JList ex)
        \<longrightarrow> flatten_description B (JDict kvs) = concat (map (flatten_description B) ex))
   \<and> (map_of kvs (lit ''text'') = None \<longrightarrow> map_of kvs (lit ''extra'') = None
        \<longrightarrow> flatten_description B (JDict kvs) = [])
   \<and> strip_motd_color_codes s = strip_pairs s
   \<and> (marker \<notin> set a \<longrightarrow> strip_motd_color_codes a = a)
   \<and> (marker \<notin> set a \<longrightarrow>
         strip_motd_color_codes (a @ marker # c # rest) = a @ strip_motd_color_codes rest)
   \<and> (marker \<notin> set a \<longrightarrow> strip_motd_color_codes (a @ [marker]) = a)
   \<and> normalize_motd B desc = py_strip (strip_pairs (flatten_description B desc))
   \<and> (\<exists>pre post. strip_pairs (flatten_description B desc) = pre @ normalize_motd B desc @ post
          \<and> list_all is_space pre \<and> list_all is_space post)
   \<and> \<not> (\<exists>c cs. normalize_motd B desc = c # cs \<and> is_space c)
   \<and> \<not> (\<exists>c cs. normalize_motd B desc = cs @ [c] \<and> is_space c)
   \<and> flatten_description B
        (JDict [(lit ''text'', JStr (lit ''A'')),
                (lit ''extra'', JList [JDict [(lit ''text'', JStr (lit ''B''))],
                                       JStr (lit ''C'')])])
      = lit ''ABC''"
proof -
  have plain: "strip_motd_color_codes a = a" if "marker \<notin> set a" for a
    using that strip_pairs_plain [of a "[]"] by (simp add: strip_is_strip_pairs)
  have pair: "strip_motd_color_codes (a @ marker # c # rest) = a @ strip_motd_color_codes rest"
    if "marker \<notin> set a" for a c rest
    using that by (simp add: strip_is_strip_pairs strip_pairs_plain)
  have lone: "strip_motd_color_codes (a @ [marker]) = a" if "marker \<notin> set a" for a
    using that by (simp add: strip_is_strip_pairs strip_pairs_plain)
  have norm: "normalize_motd B desc = py_strip (strip_pairs (flatten_description B desc))"
    by (simp add: normalize_motd_def strip_is_strip_pairs)
  have ends: "\<exists>pre post. strip_pairs (flatten_description B desc)
                  = pre @ normalize_motd B desc @ post
                \<and> list_all is_space pre \<and> list_all is_space post"
    unfolding norm by (rule py_strip_ends)
  have trimmed: "\<not> (\<exists>c cs. normalize_motd B desc = c # cs \<and> is_space c)"
    "\<not> (\<exists>c cs. normalize_motd B desc = cs @ [c] \<and> is_space c)"
    unfolding norm by (rule py_strip_trimmed)+
  have f1: "flatten_description B (JStr s) = s"
    and f2: "flatten_description B (JList xs) = concat (map (flatten_description B) xs)"
    by simp_all
  have f3: "flatten_description B (JDict kvs) = t @ concat (map (flatten_description B) ex)"
    if "map_of kvs (lit ''text'') = Some (JStr t)" "map_of kvs (lit ''extra'') = Some (JList ex)"
    using that by simp
  have f4: "flatten_description B (JDict kvs) = t"
    if "map_of kvs (lit ''text'') = Some (JStr t)" "map_of kvs (lit ''extra'') = None"
    using that by simp
  have f5: "flatten_description B (JDict kvs) = concat (map (flatten_description B) ex)"
    if "map_of kvs (lit ''text'') = None" "map_of kvs (lit ''extra'') = Some (JList ex)"
    using that by simp
  have f6: "flatten_description B (JDict kvs) = []"
    if "map_of kvs (lit ''text'') = None" "map_of kvs (lit ''extra'') = None"
    using that by simp
  show ?thesis
    by (intro conjI impI)
      (rule f1 f2 f3 f4 f5 f6 strip_is_strip_pairs plain pair lone norm ends trimmed
         flatten_example; assumption)+
qed

theorem normalizer_flattens_and_strips_witness:
  "flatten_description (stub_builtins (Inr JNull))
     (JDict [(lit ''color'', JStr (lit ''gold'')),
             (lit ''extra'', JList [JStr (lit ''B''), JList [JStr (lit ''C'')]]),
             (lit ''text'', JStr (lit ''A''))])
   = lit ''ABC''
   \<and> strip_motd_color_codes (lit ''Hi '' @ marker # 99 # lit ''there'') = lit ''Hi there''
   \<and> strip_motd_color_codes (lit ''Hi'' @ [marker]) = lit ''Hi''
   \<and> normalize_motd (stub_builtins (Inr JNull)) (JStr (32 # marker # 97 # lit ''A Server ''))
      = lit ''A Server''"
proof -
  let ?B = "stub_builtins (Inr JNull)"
  let ?kvs = "[(lit ''color'', JStr (lit ''gold'')),
               (lit ''extra'', JList [JStr (lit ''B''), JList [JStr (lit ''C'')]]),
               (lit ''text'', JStr (lit ''A''))]"
  have m: "marker \<notin> set (lit ''Hi '')" "marker \<notin> set (lit ''Hi'')" "marker \<notin> set (lit ''there'')"
    by (simp_all add: marker_def lit_def)
  have 1: "flatten_description ?B (JDict ?kvs) = lit ''ABC''"
    using normalizer_flattens_and_strips
      [where B = ?B and kvs = ?kvs and t = "lit ''A''"
         and ex = "[JStr (lit ''B''), JList [JStr (lit ''C'')]]"]
    by (simp add: lit_append)
  have "strip_motd_color_codes (lit ''Hi '' @ marker # 99 # lit ''there'')
          = lit ''Hi '' @ strip_motd_color_codes (lit ''there'')"
    using normalizer_flattens_and_strips
      [where a = "lit ''Hi ''" and c = 99 and rest = "lit ''there''"] m
    by blast
  moreover have "strip_motd_color_codes (lit ''there'') = lit ''there''"
    using normalizer_flattens_and_strips [where a = "lit ''there''"] m by blast
  ultimately have 2:
    "strip_motd_color_codes (lit ''Hi '' @ marker # 99 # lit ''there'') = lit ''Hi there''"
    by (simp add: lit_append)
  have 3: "strip_motd_color_codes (lit ''Hi'' @ [marker]) = lit ''Hi''"
    using normalizer_flattens_and_strips [where a = "lit ''Hi''"] m by blast
  have "normalize_motd ?B (JStr (32 # marker # 97 # lit ''A Server ''))
          = py_strip (strip_pairs (flatten_description ?B
                                     (JStr (32 # marker # 97 # lit ''A Server ''))))"
    using normalizer_flattens_and_strips
      [where B = ?B and desc = "JStr (32 # marker # 97 # lit ''A Server '')"]
    by blast
  then have 4: "normalize_motd ?B (JStr (32 # marker # 97 # lit ''A Server '')) = lit ''A Server''"
    by (simp add: py_strip_def is_space_def lit_def marker_def)
  from 1 2 3 4 show ?thesis by blast
qed

section \<open>Properties of the Status protocol client\<close>


lemma query_status_try_shape:
  assumes "query_status_try B connect host port protocol = Inr out"
  shows "\<exists>motd po pm vn vp. out = status_online motd po pm vn vp"
proof -
  from assms obtain desc po pm vn vp where
    "out = status_online (normalize_motd B desc) po pm (py_str B vn) (protocol_of vp)"
    by (auto simp add: query_status_try_def read_status_def and_then_Inr_iff Let_def
          split: prod.splits)
  then show ?thesis by blast
qed

lemma status_online_get [simp]:
  "py_get (status_online motd po pm vn vp) (lit ''online'') d = Inr (JBool True)"
  "py_get (status_online motd po pm vn vp) (lit ''motd'') d = Inr (JStr motd)"
  "py_get (status_online motd po pm vn vp) (lit ''players'') d
     = Inr (JDict [(lit ''online'', JInt po), (lit ''max'', JInt pm)])"
  "py_get (status_online motd po pm vn vp) (lit ''version'') d
     = Inr (JDict [(lit ''name'', JStr vn), (lit ''protocol'', JInt vp)])"
  "py_get (status_online motd po pm vn vp) (lit ''error'') d = Inr d"
  by (simp_all add: status_online_def)

lemma status_offline_get [simp]:
  "py_get (status_offline msg) (lit ''online'') d = Inr (JBool False)"
  "py_get (status_offline msg) (lit ''error'') d = Inr (JStr msg)"
  "py_get (status_offline msg) (lit ''motd'') d = Inr d"
  "py_get (status_offline msg) (lit ''players'') d = Inr d"
  "py_get (status_offline msg) (lit ''version'') d = Inr d"
  by (simp_all add: status_offline_def)

lemma query_status_cases:
  "(\<exists>motd po pm vn vp.
       query_status_try B connect host port protocol = Inr (status_online motd po pm vn vp)
       \<and> query_status B connect host port protocol = status_online motd po pm vn vp)
   \<or> (\<exists>e. query_status_try B connect host port protocol = Inl e
         \<and> query_status B connect host port protocol = status_offline (err_str e))"
proof (cases "query_status_try B connect host port protocol")
  case (Inl e)
  then show ?thesis by (simp add: query_status_def)
next
  case (Inr out)
  with query_status_try_shape [OF Inr] show ?thesis by (auto simp add: query_status_def)
qed

lemma handshake_stub:
  "\<exists>packet. handshake (stub_builtins parsed) (JStr (lit ''mc'')) 25565 767 = Inr packet"
  by (simp add: handshake_def pack_mc_string_def struct_pack_H_def stub_builtins_def)

lemma query_deliver:
  "query_status_try (stub_builtins parsed) (deliver events) (JStr (lit ''mc'')) 25565 767
   = read_status (stub_builtins parsed) events"
  using handshake_stub [of parsed]
  by (auto simp add: query_status_try_def deliver_def sendall_def)

lemmas run_read =
  read_status_def stub_builtins_def read_varint_def read_loop.simps recv_exact_def
  recv_exact_loop.simps body_varint.simps

lemma try_refused:
  "query_status_try B refuse host port protocol
   = Inl (Error IOError (lit ''[Errno 111] Connection refused''))"
  by (simp add: query_status_try_def refuse_def)

lemma try_timeout:
  "read_status (stub_builtins (Inr JNull)) [Fail (Error IOError (lit ''timed out''))]
   = Inl (Error IOError (lit ''timed out''))"
  by (simp add: run_read)

lemma try_bad_varint:
  "read_status (stub_builtins (Inr JNull)) [Chunk [0x80, 0x80, 0x80, 0x80, 0x80, 0x80, 0x01]]
   = Inl (Error IOError (lit ''VarInt too big''))"
  by (simp add: run_read)

lemma try_closed_early:
  "read_status (stub_builtins (Inr JNull)) [Chunk [0x05, 0x00]]
   = Inl (Error IOError (lit ''Socket closed while reading''))"
  by (simp add: run_read)

lemma try_bad_json:
  "read_status (stub_builtins (Inl (Error ValueError (lit ''Expecting value''))))
     [Chunk [0x04, 0x00, 0x02, 0x7B, 0x7D]]
   = Inl (Error ValueError (lit ''Expecting value''))"
  by (simp add: run_read)

lemma try_success:
  "read_status (stub_builtins (Inr server_json)) [Chunk [0x04, 0x00], Chunk [0x02, 0x7B, 0x7D]]
   = Inr (status_online (lit ''A Server'') 5 20 (lit ''1.20.1'') 763)"
  by (simp add: run_read server_json_def normalize_motd_def strip_is_strip_pairs or_empty_def
        py_strip_def is_space_def lit_def marker_def)

text \<open>
  Claim C1 (\<open>query_status\<close> never raises). \<open>query_status\<close> is total: for every library,
  network, host, port and protocol version it returns a dictionary. Either no step of
  the body raised, and the result is the Status the body built, with \<open>online\<close> true
  and no \<open>error\<close> entry; or a step raised an exception \<open>e\<close> (the connection, a send, a
  receive, a VarInt, the JSON text, a conversion), and the result is the Status with
  \<open>online\<close> false and \<open>error\<close> the text \<open>str(e)\<close>.
\<close>

theorem query_status_never_raises:
  "(\<exists>motd po pm vn vp.
       query_status_try B connect host port protocol = Inr (status_online motd po pm vn vp)
       \<and> query_status B connect host port protocol = status_online motd po pm vn vp
       \<and> py_get (query_status B connect host port protocol) (lit ''online'') (JBool False)
           = Inr (JBool True)
       \<and> py_get (query_status B connect host port protocol) (lit ''error'') JNull = Inr JNull)
   \<or> (\<exists>e. query_status_try B connect host port protocol = Inl e
         \<and> query_status B connect host port protocol = status_offline (err_str e)
         \<and> py_get (query_status B connect host port protocol) (lit ''online'') (JBool False)
             = Inr (JBool False)
         \<and> py_get (query_status B connect host port protocol) (lit ''error'') JNull
             = Inr (JStr (err_str e)))"
  using query_status_cases [of B connect host port protocol]
proof (elim disjE exE conjE)
  fix motd po pm vn vp
  assume "query_status_try B connect host port protocol = Inr (status_online motd po pm vn vp)"
    and "query_status B connect host port protocol = status_online motd po pm vn vp"
  then show ?thesis
    by (intro disjI1 exI [of _ motd] exI [of _ po] exI [of _ pm] exI [of _ vn] exI [of _ vp])
      simp
next
  fix e
  assume "query_status_try B connect host port protocol = Inl e"
    and "query_status B connect host port protocol = status_offline (err_str e)"
  then show ?thesis
    by (intro disjI2 exI [of _ e]) simp
qed

theorem query_status_never_raises_witness:
  "query_status (stub_builtins (Inr JNull)) refuse (JStr (lit ''mc'')) 25565 767
     = status_offline (lit ''[Errno 111] Connection refused'')
   \<and> query_status (stub_builtins (Inr JNull))
         (deliver [Fail (Error IOError (lit ''timed out''))]) (JStr (lit ''mc'')) 25565 767
     = status_offline (lit ''timed out'')
   \<and> query_status (stub_builtins (Inr JNull))
         (deliver [Chunk [0x80, 0x80, 0x80, 0x80, 0x80, 0x80, 0x01]]) (JStr (lit ''mc'')) 25565 767
     = status_offline (lit ''VarInt too big'')
   \<and> query_status (stub_builtins (Inr JNull))
         (deliver [Chunk [0x05, 0x00]]) (JStr (lit ''mc'')) 25565 767
     = status_offline (lit ''Socket closed while reading'')
   \<and> query_status (stub_builtins (Inl (Error ValueError (lit ''Expecting value''))))
         (deliver [Chunk [0x04, 0x00, 0x02, 0x7B, 0x7D]]) (JStr (lit ''mc'')) 25565 767
     = status_offline (lit ''Expecting value'')
   \<and> query_status (stub_builtins (Inr server_json))
         (deliver [Chunk [0x04, 0x00], Chunk [0x02, 0x7B, 0x7D]]) (JStr (lit ''mc'')) 25565 767
     = status_online (lit ''A Server'') 5 20 (lit ''1.20.1'') 763"
proof (intro conjI)
  let ?host = "JStr (lit ''mc'')"
  show "query_status (stub_builtins (Inr JNull)) refuse ?host 25565 767
          = status_offline (lit ''[Errno 111] Connection refused'')"
    using query_status_never_raises [of "stub_builtins (Inr JNull)" refuse ?host 25565 767]
    by (auto simp add: try_refused)
  show "query_status (stub_builtins (Inr JNull))
          (deliver [Fail (Error IOError (lit ''timed out''))]) ?host 25565 767
        = status_offline (lit ''timed out'')"
    using query_status_never_raises [of "stub_builtins (Inr JNull)"
        "deliver [Fail (Error IOError (lit ''timed out''))]" ?host 25565 767]
    by (auto simp add: query_deliver try_timeout)
  show "query_status (stub_builtins (Inr JNull))
          (deliver [Chunk [0x80, 0x80, 0x80, 0x80, 0x80, 0x80, 0x01]]) ?host 25565 767
        = status_offline (lit ''VarInt too big'')"
    using query_status_never_raises [of "stub_builtins (Inr JNull)"
        "deliver [Chunk [0x80, 0x80, 0x80, 0x80, 0x80, 0x80, 0x01]]" ?host 25565 767]
    by (auto simp add: query_deliver try_bad_varint)
  show "query_status (stub_builtins (Inr JNull)) (deliver [Chunk [0x05, 0x00]]) ?host 25565 767
        = status_offline (lit ''Socket closed while reading'')"
    using query_status_never_raises [of "stub_builtins (Inr JNull)"
        "deliver [Chunk [0x05, 0x00]]" ?host 25565 767]
    by (auto simp add: query_deliver try_closed_early)
  show "query_status (stub_builtins (Inl (Error ValueError (lit ''Expecting value''))))
          (deliver [Chunk [0x04, 0x00, 0x02, 0x7B, 0x7D]]) ?host 25565 767
        = status_offline (lit ''Expecting value'')"
    using query_status_never_raises
      [of "stub_builtins (Inl (Error ValueError (lit ''Expecting value'')))"
        "deliver [Chunk [0x04, 0x00, 0x02, 0x7B, 0x7D]]" ?host 25565 767]
    by (auto simp add: query_deliver try_bad_json)
  show "query_status (stub_builtins (Inr server_json))
          (deliver [Chunk [0x04, 0x00], Chunk [0x02, 0x7B, 0x7D]]) ?host 25565 767
        = status_online (lit ''A Server'') 5 20 (lit ''1.20.1'') 763"
    using query_status_never_raises [of "stub_builtins (Inr server_json)"
        "deliver [Chunk [0x04, 0x00], Chunk [0x02, 0x7B, 0x7D]]" ?host 25565 767]
    by (auto simp add: query_deliver try_success)
qed

section \<open>Properties of the fingerprint\<close>


lemma section_get:
  assumes "is_section B (map_of kvs k)"
  shows "py_get (or_empty B (case map_of kvs k of Some v \<Rightarrow> v | None \<Rightarrow> JNull)) k' d
         = Inr (case lookup_path (JDict kvs) [k, k'] of Some v \<Rightarrow> v | None \<Rightarrow> d)"
proof (cases "map_of kvs k")
  case None
  then show ?thesis by (simp add: or_empty_def)
next
  case (Some x)
  with assms show ?thesis
    by (cases x) (auto simp add: or_empty_def split: option.splits)
qed

lemma hash_payload_canonical:
  assumes "is_status B s"
  shows "hash_payload B s =
    Inr (JDict [(lit ''online'',
                   case lookup_path s [lit ''online''] of Some v \<Rightarrow> v | None \<Rightarrow> JBool False),
                (lit ''motd'',
                   case lookup_path s [lit ''motd''] of Some v \<Rightarrow> v | None \<Rightarrow> JStr []),
                (lit ''players_online'',
                   case lookup_path s [lit ''players'', lit ''online''] of
                     Some v \<Rightarrow> v | None \<Rightarrow> JInt 0),
                (lit ''players_max'',
                   case lookup_path s [lit ''players'', lit ''max''] of
                     Some v \<Rightarrow> v | None \<Rightarrow> JInt 0),
                (lit ''version_name'',
                   case lookup_path s [lit ''version'', lit ''name''] of
                     Some v \<Rightarrow> v | None \<Rightarrow> JStr []),
                (lit ''version_protocol'',
                   case lookup_path s [lit ''version'', lit ''protocol''] of
                     Some v \<Rightarrow> v | None \<Rightarrow> JInt 0)])"
proof -
  from assms obtain kvs where s: "s = JDict kvs"
    and p: "is_section B (map_of kvs (lit ''players''))"
    and v: "is_section B (map_of kvs (lit ''version''))"
    by (cases s) (simp_all add: is_status_def)
  have top: "(case map_of kvs k of Some v \<Rightarrow> v | None \<Rightarrow> d)
             = (case lookup_path (JDict kvs) [k] of Some v \<Rightarrow> v | None \<Rightarrow> d)" for k d
    by (simp split: option.splits)
  show ?thesis
    unfolding s hash_payload_def
    by (simp only: py_get_dict and_then_simps section_get [OF p] section_get [OF v]
          top [where k = "lit ''online''" and d = "JBool False"]
          top [where k = "lit ''motd''" and d = "JStr []"])
qed

lemma hash_state_canonical:
  assumes "is_status B a" and "is_status B b" and "canonical_fields a = canonical_fields b"
  shows "hash_state B a = hash_state B b" and "\<exists>d. hash_state B a = Inr d"
  using assms(3)
  by (simp_all add: hash_state_def hash_payload_canonical [OF assms(1)]
        hash_payload_canonical [OF assms(2)] canonical_fields_def)

lemma hash_state_returns: "is_status B s \<Longrightarrow> \<exists>d. hash_state B s = Inr d"
  by (simp add: hash_state_def hash_payload_canonical)

lemma hash_state_frame:
  assumes "k \<noteq> lit ''online''" "k \<noteq> lit ''motd''" "k \<noteq> lit ''players''" "k \<noteq> lit ''version''"
  shows "hash_state B (JDict (AList.update k v kvs)) = hash_state B (JDict kvs)"
  using assms by (simp add: hash_state_def hash_payload_def update_conv')

lemma is_status_offline [simp]: "is_status B (status_offline msg)"
  by (simp add: is_status_def status_offline_def)

lemma is_status_online [simp]: "is_status B (status_online motd po pm vn vp)"
  by (simp add: is_status_def status_online_def)

lemma is_status_query [simp]: "is_status B (query_status B' connect host port protocol)"
  using query_status_cases [of B' connect host port protocol] by auto

text \<open>
  Claim C2 (the fingerprint depends on the six canonical fields only). Two Status
  values with the same six canonical fields have the same digest, and \<open>_hash_state\<close>
  returns it, whatever else the two contain; in particular writing any entry other than
  \<open>online\<close>, \<open>motd\<close>, \<open>players\<close> and \<open>version\<close> into a Status (the \<open>error\<close> text, say)
  leaves the result of \<open>_hash_state\<close> as it was, and two offline Statuses with different
  error texts have the same digest. Equal inputs give equal digests, \<open>_hash_state\<close>
  being a function of its argument and of the library's digest.
\<close>

theorem fingerprint_canonical_fields_only:
  "(is_status B a \<longrightarrow> is_status B b \<longrightarrow> canonical_fields a = canonical_fields b \<longrightarrow>
      hash_state B a = hash_state B b \<and> (\<exists>d. hash_state B a = Inr d))
   \<and> (k \<notin> {lit ''online'', lit ''motd'', lit ''players'', lit ''version''} \<longrightarrow>
        hash_state B (JDict (AList.update k v kvs)) = hash_state B (JDict kvs))
   \<and> hash_state B (status_offline msg) = hash_state B (status_offline msg')"
proof (intro conjI impI)
  assume a: "is_status B a" and b: "is_status B b"
    and eq: "canonical_fields a = canonical_fields b"
  from a b eq show "hash_state B a = hash_state B b" by (rule hash_state_canonical)
  from a show "\<exists>d. hash_state B a = Inr d" by (rule hash_state_returns)
next
  assume "k \<notin> {lit ''online'', lit ''motd'', lit ''players'', lit ''version''}"
  then show "hash_state B (JDict (AList.update k v kvs)) = hash_state B (JDict kvs)"
    by (intro hash_state_frame) simp_all
next
  show "hash_state B (status_offline msg) = hash_state B (status_offline msg')"
    by (rule hash_state_canonical)
      (simp_all add: canonical_fields_def status_offline_def is_status_def)
qed

theorem fingerprint_canonical_fields_only_witness:
  "hash_state (stub_builtins (Inr JNull))
     (JDict [(lit ''online'', JBool True), (lit ''motd'', JStr (lit ''A Server'')),
             (lit ''players'', JDict [(lit ''online'', JInt 5), (lit ''max'', JInt 20),
                                      (lit ''sample'', JList [])]),
             (lit ''version'', JDict [(lit ''name'', JStr (lit ''1.20.1'')),
                                      (lit ''protocol'', JInt 763)]),
             (lit ''latency'', JInt 42)])
   = hash_state (stub_builtins (Inr JNull))
       (status_online (lit ''A Server'') 5 20 (lit ''1.20.1'') 763)
   \<and> hash_state (stub_builtins (Inr JNull)) (status_offline (lit ''timed out''))
     = hash_state (stub_builtins (Inr JNull))
         (status_offline (lit ''[Errno 111] Connection refused''))
   \<and> hash_state (stub_builtins (Inr JNull))
        (JDict (AList.update (lit ''error'') (JStr (lit ''timed out''))
                  [(lit ''online'', JBool False), (lit ''error'', JStr [])]))
     = hash_state (stub_builtins (Inr JNull))
         (JDict [(lit ''online'', JBool False), (lit ''error'', JStr [])])"
proof -
  let ?B = "stub_builtins (Inr JNull)"
  let ?a = "JDict [(lit ''online'', JBool True), (lit ''motd'', JStr (lit ''A Server'')),
             (lit ''players'', JDict [(lit ''online'', JInt 5), (lit ''max'', JInt 20),
                                      (lit ''sample'', JList [])]),
             (lit ''version'', JDict [(lit ''name'', JStr (lit ''1.20.1'')),
                                      (lit ''protocol'', JInt 763)]),
             (lit ''latency'', JInt 42)]"
  let ?b = "status_online (lit ''A Server'') 5 20 (lit ''1.20.1'') 763"
  have a: "is_status ?B ?a" by (simp add: is_status_def)
  have b: "is_status ?B ?b" by simp
  have eq: "canonical_fields ?a = canonical_fields ?b"
    by (simp add: canonical_fields_def status_online_def)
  have k: "lit ''error'' \<notin> {lit ''online'', lit ''motd'', lit ''players'', lit ''version''}"
    by simp
  from fingerprint_canonical_fields_only
    [of ?B ?a ?b "lit ''error''" "JStr (lit ''timed out'')"
       "[(lit ''online'', JBool False), (lit ''error'', JStr [])]"
       "lit ''timed out''" "lit ''[Errno 111] Connection refused''"]
    a b eq k
  show ?thesis by blast
qed

subsection \<open>Sensitivity of the fingerprint\<close>

text \<open>
  Two Status values whose \<open>players.online\<close> are 3 and 4 give \<open>_hash_state\<close> two
  different payloads to hash, and each digest is the library's digest of its payload.
  Whether the two digests differ is then a question about SHA-256 and \<open>json.dumps\<close>
  alone, which are parameters here: the digests differ unless the library's digest
  collides on these two payloads.
\<close>

lemma payload_sensitive:
  assumes "is_status B a" and "is_status B b"
    and "lookup_path a [lit ''players'', lit ''online''] = Some (JInt 3)"
    and "lookup_path b [lit ''players'', lit ''online''] = Some (JInt 4)"
  shows "\<exists>pa pb. hash_payload B a = Inr pa \<and> hash_payload B b = Inr pb \<and> pa \<noteq> pb
           \<and> hash_state B a = Inr (sha256_json B pa) \<and> hash_state B b = Inr (sha256_json B pb)"
  using assms(3,4)
  by (simp add: hash_state_def hash_payload_canonical [OF assms(1)]
        hash_payload_canonical [OF assms(2)])

lemma digest_sensitive_without_collision:
  assumes "is_status B a" and "is_status B b"
    and "lookup_path a [lit ''players'', lit ''online''] = Some (JInt 3)"
    and "lookup_path b [lit ''players'', lit ''online''] = Some (JInt 4)"
    and "inj (sha256_json B)"
  shows "hash_state B a \<noteq> hash_state B b"
  using payload_sensitive [OF assms(1-4)] assms(5) by (auto dest: injD)

section \<open>Properties of the notifier\<close>

text \<open>
  \<open>send_discord\<close> posts exactly when the state holds a webhook URL; what the post
  answers only decides about a line on the console log. It never calls itself and never
  writes the state file.
\<close>

lemma send_discord_without_webhook:
  "\<not> truthy B webhook_url \<Longrightarrow> send_discord B webhook_url title desc flds = ([], None)"
  by (simp add: send_discord_def)

lemma send_discord_with_webhook:
  "truthy B webhook_url \<Longrightarrow>
   \<exists>logged raised. send_discord B webhook_url title desc flds
      = (HttpPost webhook_url (discord_payload title desc flds) # logged, raised)"
  by (simp add: send_discord_def Let_def split: sum.splits prod.splits option.splits)

lemma send_discord_accepted:
  assumes "truthy B webhook_url"
    and "requests_post B webhook_url (discord_payload title desc flds) = Inr (code, body)"
    and "code < 300"
  shows "send_discord B webhook_url title desc flds
         = ([HttpPost webhook_url (discord_payload title desc flds)], None)"
  using assms by (simp add: send_discord_def Let_def)

lemma send_discord_effects:
  "set (fst (send_discord B webhook_url title desc flds))
   \<subseteq> {HttpPost webhook_url (discord_payload title desc flds)} \<union> range ConsoleLog"
  by (auto simp add: send_discord_def Let_def split: sum.splits prod.splits option.splits)

lemma send_discord_no_call:
  "SendDiscord wh t d f \<notin> set (fst (send_discord B webhook_url title desc flds))"
  using send_discord_effects [of B webhook_url title desc flds] by auto

lemma send_discord_returns_no_call:
  assumes "send_discord B webhook_url title desc flds = (posted, raised)"
  shows "SendDiscord wh t d f \<notin> set posted"
  using send_discord_no_call [of wh t d f B webhook_url title desc flds] assms by simp

lemma send_discord_posts_iff:
  "(\<exists>url payload. HttpPost url payload \<in> set (fst (send_discord B webhook_url title desc flds)))
   \<longleftrightarrow> truthy B webhook_url"
proof (cases "truthy B webhook_url")
  case True
  then show ?thesis
    using send_discord_with_webhook [of B webhook_url title desc flds] by fastforce
next
  case False
  then show ?thesis by (simp add: send_discord_without_webhook)
qed


section \<open>Properties of the monitor engine\<close>


subsection \<open>Summaries\<close>

lemma fmt_none: "\<not> truthy B s \<Longrightarrow> fmt B s = Inr (lit ''(none)'')"
  by (simp add: fmt_def)

lemma fmt_offline_dict:
  assumes "kvs \<noteq> []"
    and "\<not> truthy B (case map_of kvs (lit ''online'') of Some v \<Rightarrow> v | None \<Rightarrow> JBool False)"
  shows "fmt B (JDict kvs) = Inr (lit ''Offline'')"
  using assms by (simp add: fmt_def)

lemma fmt_offline [simp]: "fmt B (status_offline msg) = Inr (lit ''Offline'')"
  by (simp add: fmt_def status_offline_def)

lemma fmt_online [simp]:
  "fmt B (status_online motd po pm vn vp)
   = Inr (lit ''Online: '' @ str_of_int po @ lit ''/'' @ str_of_int pm
          @ lit '' Version: '' @ vn @ lit '' MOTD: '' @ motd)"
  by (simp add: fmt_def status_online_def)

lemma format_fields_eq:
  "fmt B old = Inr p \<Longrightarrow> fmt B new = Inr c \<Longrightarrow>
   format_fields B old new = Inr [(lit ''Previous'', p), (lit ''Current'', c)]"
  by (simp add: format_fields_def)

lemma format_fields_Inr:
  "format_fields B old new = Inr flds \<Longrightarrow>
   \<exists>p c. fmt B old = Inr p \<and> fmt B new = Inr c
          \<and> flds = [(lit ''Previous'', p), (lit ''Current'', c)]"
  by (auto simp add: format_fields_def and_then_Inr_iff)

lemma fmt_query_status: "\<exists>c. fmt B (query_status B' connect host port protocol) = Inr c"
  using query_status_cases [of B' connect host port protocol] by auto

subsection \<open>The line printed on a change\<close>

lemma change_line_online:
  "change_line B name host port (status_online motd po pm vn vp)
   = Inr (lit ''[green][CHANGE][/green] '' @ py_str B name @ lit '' ''
          @ py_str B host @ lit '':'' @ str_of_int port
          @ lit '' -> Online '' @ str_of_int po @ lit ''/'' @ str_of_int pm
          @ lit '', '' @ vn)"
  by (simp add: change_line_def status_online_def py_item_def)

lemma change_line_offline:
  "change_line B name host port (status_offline msg)
   = Inr (lit ''[red][CHANGE][/red] '' @ py_str B name @ lit '' ''
          @ py_str B host @ lit '':'' @ str_of_int port
          @ lit '' -> Offline ('' @ msg @ lit '')'')"
  by (simp add: change_line_def status_offline_def)

lemma change_line_query_status:
  "\<exists>line. change_line B name host port (query_status B' connect h p protocol) = Inr line"
  using query_status_cases [of B' connect h p protocol]
  by (auto simp add: change_line_online change_line_offline)

subsection \<open>Reading and writing the baseline\<close>

lemma compare_baseline_absent:
  assumes "hash_state B status = Inr h"
    and "lookup_path state [lit ''last'', key] = None"
    and "state = JDict kvs"
    and "is_section B (map_of kvs (lit ''last''))"
  shows "compare_baseline B state key status = Inr (h, JDict [], JNull)"
proof (cases "map_of kvs (lit ''last'')")
  case None
  with assms show ?thesis by (simp add: compare_baseline_def or_empty_def)
next
  case (Some x)
  with assms show ?thesis
    by (cases x) (auto simp add: compare_baseline_def or_empty_def split: option.splits)
qed

lemma lookup_path_ConsD:
  assumes "lookup_path x (k # ks) = Some v"
  obtains kvs y where "x = JDict kvs" and "map_of kvs k = Some y" and "lookup_path y ks = Some v"
  using assms by (cases x) (auto split: option.splits)

lemma compare_baseline_stored:
  assumes "hash_state B status = Inr h"
    and "lookup_path state [lit ''last'', key, lit ''hash''] = Some ph"
  shows "\<exists>prev. compare_baseline B state key status = Inr (h, prev, ph)
           \<and> lookup_path state [lit ''last'', key] = Some prev"
proof -
  from assms(2) obtain kvs l where s: "state = JDict kvs"
    and l: "map_of kvs (lit ''last'') = Some l"
    and 1: "lookup_path l [key, lit ''hash''] = Some ph"
    by (rule lookup_path_ConsD)
  from 1 obtain bs prev where b: "l = JDict bs" and p: "map_of bs key = Some prev"
    and 2: "lookup_path prev [lit ''hash''] = Some ph"
    by (rule lookup_path_ConsD)
  from 2 obtain e where e: "prev = JDict e" and eh: "map_of e (lit ''hash'') = Some ph"
    by (rule lookup_path_ConsD) simp
  from p have "bs \<noteq> []" by auto
  with s l b p e eh assms(1) show ?thesis
    by (simp add: compare_baseline_def or_empty_def)
qed

lemma compare_baseline_hash:
  assumes "compare_baseline B state key status = Inr (h, prev, JStr ph)"
  shows "lookup_path state [lit ''last'', key, lit ''hash''] = Some (JStr ph)"
    and "hash_state B status = Inr h"
proof -
  from assms obtain l where h: "hash_state B status = Inr h"
    and l: "py_get state (lit ''last'') JNull = Inr l"
    and p: "py_get (or_empty B l) key (JDict []) = Inr prev"
    and ph: "py_get prev (lit ''hash'') JNull = Inr (JStr ph)"
    by (auto simp add: compare_baseline_def and_then_Inr_iff)
  from h show "hash_state B status = Inr h" .
  from l obtain kvs where s: "state = JDict kvs" by (auto dest: py_get_Inr_dict)
  from ph obtain e where e: "prev = JDict e" and eh: "map_of e (lit ''hash'') = Some (JStr ph)"
    by (cases prev) (auto simp add: py_get_def split: option.splits)
  from p e eh obtain bs where b: "or_empty B l = JDict bs" and bk: "map_of bs key = Some prev"
    by (cases "or_empty B l") (auto simp add: py_get_def split: option.splits)
  from b bk have "l = JDict bs" by (auto simp add: or_empty_def split: if_splits)
  with l s bk e eh show "lookup_path state [lit ''last'', key, lit ''hash''] = Some (JStr ph)"
    by (auto split: option.splits)
qed


lemma baselinesD:
  assumes "baselines state = Some l"
  obtains kvs where "state = JDict kvs"
    and "map_of kvs (lit ''last'') = None \<and> l = [] \<or> map_of kvs (lit ''last'') = Some (JDict l)"
  using assms by (cases state) (auto simp add: baselines_def split: option.splits json.splits)

lemma lookup_baseline:
  assumes "baselines state = Some l"
  shows "lookup_path state (lit ''last'' # key # ks)
         = (case map_of l key of None \<Rightarrow> None | Some v \<Rightarrow> lookup_path v ks)"
  using assms by (rule baselinesD) auto

lemma compare_baseline_first:
  assumes "hash_state B status = Inr h" and "baselines state = Some l" and "map_of l key = None"
  shows "compare_baseline B state key status = Inr (h, JDict [], JNull)"
  using assms(2)
proof (rule baselinesD)
  fix kvs
  assume "state = JDict kvs"
    and "map_of kvs (lit ''last'') = None \<and> l = [] \<or> map_of kvs (lit ''last'') = Some (JDict l)"
  with assms(1,3) show ?thesis
    by (auto simp add: compare_baseline_def or_empty_def)
qed

lemma set_baseline_eq:
  assumes "baselines state = Some l"
  shows "\<exists>state'. set_baseline state key entry = Inr state'
           \<and> baselines state' = Some (AList.update key entry l)
           \<and> (\<forall>k d. k \<noteq> lit ''last'' \<longrightarrow> py_get state' k d = py_get state k d)"
  using assms
proof (rule baselinesD)
  fix kvs
  assume "state = JDict kvs"
    and "map_of kvs (lit ''last'') = None \<and> l = [] \<or> map_of kvs (lit ''last'') = Some (JDict l)"
  then show ?thesis
    by (auto simp add: set_baseline_def baselines_def update_conv')
qed

lemma set_baseline_Inr:
  assumes "set_baseline state key entry = Inr state'"
  shows "\<exists>l. baselines state = Some l \<and> baselines state' = Some (AList.update key entry l)"
proof -
  from assms obtain kvs where s: "state = JDict kvs"
    by (cases state) (simp_all add: set_baseline_def)
  with assms have "\<exists>l. baselines state = Some l"
    by (auto simp add: set_baseline_def baselines_def split: option.splits json.splits)
  then obtain l where l: "baselines state = Some l" ..
  from set_baseline_eq [OF l, of key entry] assms l show ?thesis by auto
qed


subsection \<open>One call of \<open>monitor_once\<close>\<close>

lemma monitor_once_polls:
  assumes "read_target B srv = Inr (host, port, name, protocol)" and "truthy B host"
  shows "monitor_once B connect state srv =
     (case compare_baseline B state (server_key B host port)
             (query_status B connect host port protocol) of
        Inl e \<Rightarrow> ([], Inl e)
      | Inr (now_hash, prev, prev_hash) \<Rightarrow>
          if prev_hash \<noteq> JStr now_hash
          then changed B state name host port (server_key B host port)
                 (query_status B connect host port protocol) now_hash prev
          else unchanged B state name)"
  using assms by (simp add: monitor_once_def Let_def)

lemma unchanged_eq:
  assumes "state = JDict kvs"
  shows "\<exists>effs. unchanged B state name = (effs, Inr state)
          \<and> (effs = [] \<or> effs = [ConsolePrint (lit ''[purple][OK][/purple] '' @ py_str B name
                                                 @ lit '' checked, no change.'')])"
  using assms by (simp add: unchanged_def)

lemma changed_first:
  assumes "baselines state = Some l"
  shows "\<exists>wh current line state' posted raised.
      py_get state (lit ''webhook_url'') JNull = Inr wh
      \<and> fmt B (query_status B connect host port protocol) = Inr current
      \<and> change_line B name host port (query_status B connect host port protocol) = Inr line
      \<and> set_baseline state key
            (JDict [(lit ''hash'', JStr h),
                    (lit ''data'', query_status B connect host port protocol)]) = Inr state'
      \<and> baselines state'
          = Some (AList.update key
                    (JDict [(lit ''hash'', JStr h),
                            (lit ''data'', query_status B connect host port protocol)]) l)
      \<and> send_discord B wh (lit ''['' @ py_str B name @ lit ''] Status Changed'')
            (py_str B host @ lit '':'' @ str_of_int port)
            [(lit ''Previous'', lit ''(none)''), (lit ''Current'', current)] = (posted, raised)
      \<and> changed B state name host port key (query_status B connect host port protocol) h (JDict [])
          = (let call = SendDiscord wh (lit ''['' @ py_str B name @ lit ''] Status Changed'')
                          (py_str B host @ lit '':'' @ str_of_int port)
                          [(lit ''Previous'', lit ''(none)''), (lit ''Current'', current)]
             in case raised of
                  Some e \<Rightarrow> (call # posted, Inl e)
                | None \<Rightarrow>
                    (case markup_error B line of
                       Some e \<Rightarrow> (call # posted, Inl e)
                     | None \<Rightarrow>
                         (case write_json B state' of
                            Some e \<Rightarrow> (call # posted @ [ConsolePrint line], Inl e)
                          | None \<Rightarrow>
                              (call # posted @ [ConsolePrint line, SaveState state'],
                               Inr state'))))"
proof -
  let ?status = "query_status B connect host port protocol"
  let ?entry = "JDict [(lit ''hash'', JStr h), (lit ''data'', ?status)]"
  from assms obtain kvs where s: "state = JDict kvs" by (rule baselinesD)
  obtain wh where wh: "py_get state (lit ''webhook_url'') JNull = Inr wh"
    using s by simp
  obtain current where c: "fmt B ?status = Inr current"
    using fmt_query_status by blast
  obtain line where ln: "change_line B name host port ?status = Inr line"
    using change_line_query_status by blast
  obtain state' where sb: "set_baseline state key ?entry = Inr state'"
    and b': "baselines state' = Some (AList.update key ?entry l)"
    using set_baseline_eq [OF assms, of key ?entry] by blast
  have ff: "format_fields B JNull ?status
            = Inr [(lit ''Previous'', lit ''(none)''), (lit ''Current'', current)]"
    using c by (simp add: format_fields_eq fmt_none)
  obtain posted raised where
    sd: "send_discord B wh (lit ''['' @ py_str B name @ lit ''] Status Changed'')
           (py_str B host @ lit '':'' @ str_of_int port)
           [(lit ''Previous'', lit ''(none)''), (lit ''Current'', current)] = (posted, raised)"
    by (rule prod.exhaust)
  have "changed B state name host port key ?status h (JDict [])
        = (let call = SendDiscord wh (lit ''['' @ py_str B name @ lit ''] Status Changed'')
                        (py_str B host @ lit '':'' @ str_of_int port)
                        [(lit ''Previous'', lit ''(none)''), (lit ''Current'', current)]
           in case raised of
                Some e \<Rightarrow> (call # posted, Inl e)
              | None \<Rightarrow>
                  (case markup_error B line of
                     Some e \<Rightarrow> (call # posted, Inl e)
                   | None \<Rightarrow>
                       (case write_json B state' of
                          Some e \<Rightarrow> (call # posted @ [ConsolePrint line], Inl e)
                        | None \<Rightarrow>
                            (call # posted @ [ConsolePrint line, SaveState state'],
                             Inr state'))))"
    using wh ln sb ff sd
    by (simp add: changed_def Let_def split: option.splits)
  with wh c ln sb b' sd show ?thesis by blast
qed

lemma changed_Inr:
  assumes "changed B state name host port key status h prev = (effs, Inr state')"
  shows "set_baseline state key (JDict [(lit ''hash'', JStr h), (lit ''data'', status)]) = Inr state'"
  using assms
  by (auto simp add: changed_def Let_def split: sum.splits prod.splits option.splits)

lemma unchanged_Inr:
  assumes "unchanged B state name = (effs, Inr state')"
  shows "state' = state"
  using assms by (auto simp add: unchanged_def split: sum.splits if_splits)

lemma monitor_once_completes:
  assumes "read_target B srv = Inr (host, port, name, protocol)" and "truthy B host"
    and "monitor_once B connect state srv = (effs, Inr state')"
  shows "\<exists>h. hash_state B (query_status B connect host port protocol) = Inr h
    \<and> (state' = state
          \<and> lookup_path state [lit ''last'', server_key B host port, lit ''hash''] = Some (JStr h)
        \<or> (\<exists>l. baselines state = Some l
              \<and> baselines state' = Some (AList.update (server_key B host port)
                   (JDict [(lit ''hash'', JStr h),
                           (lit ''data'', query_status B connect host port protocol)]) l)))"
proof -
  let ?key = "server_key B host port"
  let ?status = "query_status B connect host port protocol"
  from assms obtain h prev ph where cb: "compare_baseline B state ?key ?status = Inr (h, prev, ph)"
    by (cases "compare_baseline B state ?key ?status")
      (auto simp add: monitor_once_polls)
  then have h: "hash_state B ?status = Inr h"
    by (auto simp add: compare_baseline_def and_then_Inr_iff)
  show ?thesis
  proof (cases "ph = JStr h")
    case True
    with assms cb have "state' = state"
      by (auto simp add: monitor_once_polls dest: unchanged_Inr)
    moreover from cb True
    have "lookup_path state [lit ''last'', ?key, lit ''hash''] = Some (JStr h)"
      by (auto dest: compare_baseline_hash(1))
    ultimately show ?thesis using h by blast
  next
    case False
    with assms cb have "changed B state name host port ?key ?status h prev = (effs, Inr state')"
      by (simp add: monitor_once_polls)
    then have "set_baseline state ?key (JDict [(lit ''hash'', JStr h), (lit ''data'', ?status)])
               = Inr state'"
      by (rule changed_Inr)
    from set_baseline_Inr [OF this] h show ?thesis by blast
  qed
qed

lemma monitor_once_unchanged:
  assumes "read_target B srv = Inr (host, port, name, protocol)" and "truthy B host"
    and "hash_state B (query_status B connect host port protocol) = Inr h"
    and "lookup_path state [lit ''last'', server_key B host port, lit ''hash''] = Some (JStr h)"
  shows "\<exists>effs. monitor_once B connect state srv = (effs, Inr state)
          \<and> (effs = [] \<or> effs = [ConsolePrint (lit ''[purple][OK][/purple] '' @ py_str B name
                                                 @ lit '' checked, no change.'')])"
proof -
  from compare_baseline_stored [OF assms(3,4)] obtain prev where
    "compare_baseline B state (server_key B host port)
       (query_status B connect host port protocol) = Inr (h, prev, JStr h)"
    by blast
  moreover from assms(4) obtain kvs where "state = JDict kvs"
    by (rule lookup_path_ConsD)
  ultimately show ?thesis
    using unchanged_eq [of state kvs B name] assms(1,2)
    by (simp add: monitor_once_polls)
qed

lemma lookup_updated:
  assumes "baselines state = Some (AList.update key (JDict e) l)"
  shows "lookup_path state [lit ''last'', key, k] = map_of e k"
  using assms by (simp add: lookup_baseline update_conv' split: option.splits)

lemma monitor_once_first:
  assumes "read_target B srv = Inr (host, port, name, protocol)" and "truthy B host"
    and "baselines state = Some l" and "map_of l (server_key B host port) = None"
  shows "\<exists>wh h current line state' posted raised.
      py_get state (lit ''webhook_url'') JNull = Inr wh
      \<and> hash_state B (query_status B connect host port protocol) = Inr h
      \<and> fmt B (query_status B connect host port protocol) = Inr current
      \<and> change_line B name host port (query_status B connect host port protocol) = Inr line
      \<and> set_baseline state (server_key B host port)
            (JDict [(lit ''hash'', JStr h),
                    (lit ''data'', query_status B connect host port protocol)]) = Inr state'
      \<and> baselines state'
          = Some (AList.update (server_key B host port)
                    (JDict [(lit ''hash'', JStr h),
                            (lit ''data'', query_status B connect host port protocol)]) l)
      \<and> send_discord B wh (lit ''['' @ py_str B name @ lit ''] Status Changed'')
            (py_str B host @ lit '':'' @ str_of_int port)
            [(lit ''Previous'', lit ''(none)''), (lit ''Current'', current)] = (posted, raised)
      \<and> monitor_once B connect state srv
          = (let call = SendDiscord wh (lit ''['' @ py_str B name @ lit ''] Status Changed'')
                          (py_str B host @ lit '':'' @ str_of_int port)
                          [(lit ''Previous'', lit ''(none)''), (lit ''Current'', current)]
             in case raised of
                  Some e \<Rightarrow> (call # posted, Inl e)
                | None \<Rightarrow>
                    (case markup_error B line of
                       Some e \<Rightarrow> (call # posted, Inl e)
                     | None \<Rightarrow>
                         (case write_json B state' of
                            Some e \<Rightarrow> (call # posted @ [ConsolePrint line], Inl e)
                          | None \<Rightarrow>
                              (call # posted @ [ConsolePrint line, SaveState state'],
                               Inr state'))))"
proof -
  let ?status = "query_status B connect host port protocol"
  obtain h where h: "hash_state B ?status = Inr h"
    using hash_state_returns [of B ?status] by auto
  from h assms(3,4) have cb: "compare_baseline B state (server_key B host port) ?status
                              = Inr (h, JDict [], JNull)"
    by (rule compare_baseline_first)
  have m: "monitor_once B connect state srv
           = changed B state name host port (server_key B host port) ?status h (JDict [])"
    using assms(1,2) cb by (simp add: monitor_once_polls)
  from changed_first [OF assms(3), of B connect host port protocol name "server_key B host port" h]
    h
  show ?thesis unfolding m by blast
qed

subsection \<open>The model run on the stand-ins\<close>

lemma read_target_mc:
  "read_target B server_mc = Inr (JStr (lit ''mc''), 25565, JStr (lit ''mc:25565''), 767)"
  by (simp add: read_target_def server_mc_def server_key_def str_of_int_def digits.simps
        lit_def)

lemma port_str: "str_of_int 25565 = lit ''25565''"
  by (simp add: str_of_int_def digits.simps lit_def)

lemma webhook_default: "py_get default_state (lit ''webhook_url'') JNull = Inr JNull"
  by (simp add: default_state_def)

lemma server_key_mc: "server_key B (JStr (lit ''mc'')) 25565 = lit ''mc:25565''"
  by (simp add: server_key_def str_of_int_def digits.simps lit_def)

lemma baselines_default: "baselines default_state = Some []"
  by (simp add: baselines_def default_state_def)

lemma query_status_refuse:
  "query_status B refuse host port protocol
   = status_offline (lit ''[Errno 111] Connection refused'')"
  by (simp add: query_status_def try_refused)

lemma query_status_deliver:
  "query_status (stub_builtins parsed) (deliver events) (JStr (lit ''mc'')) 25565 767
   = (case read_status (stub_builtins parsed) events of
        Inl e \<Rightarrow> status_offline (err_str e) | Inr out \<Rightarrow> out)"
  by (simp add: query_status_def query_deliver)

lemma hash_stub_offline:
  "hash_state (stub_builtins parsed) (status_offline msg) = Inr (lit ''digest-of-offline'')"
  by (simp add: hash_state_def hash_payload_def status_offline_def or_empty_def
        stub_builtins_def stub_digest_def)

lemma hash_stub_online:
  "hash_state (stub_builtins parsed) (status_online motd po pm vn vp)
   = Inr (lit ''digest-of-online'')"
  by (simp add: hash_state_def hash_payload_def status_online_def or_empty_def
        stub_builtins_def stub_digest_def)

lemma stub_console [simp]: "markup_error (stub_builtins parsed) text = None"
  by (simp add: stub_builtins_def)

lemma stub_post [simp]: "requests_post (stub_builtins parsed) url payload = Inr (204, [])"
  by (simp add: stub_builtins_def)

lemma stub_write [simp]: "write_json (stub_builtins parsed) st = None"
  by (simp add: stub_builtins_def)

lemma webhook_stored:
  "py_get webhook_state (lit ''webhook_url'') JNull = Inr (JStr (lit ''https://discord.example/hook''))"
  by (simp add: webhook_state_def)

lemma baselines_webhook: "baselines webhook_state = Some []"
  by (simp add: baselines_def webhook_state_def)

lemma send_discord_stub:
  "send_discord (stub_builtins parsed) (JStr (lit ''https://discord.example/hook'')) title desc flds
   = ([HttpPost (JStr (lit ''https://discord.example/hook'')) (discord_payload title desc flds)],
      None)"
  by (simp add: send_discord_def)

lemma first_poll_refused:
  "monitor_once (stub_builtins (Inr JNull)) refuse default_state server_mc
   = ([SendDiscord JNull (lit ''[mc:25565] Status Changed'') (lit ''mc:25565'')
         [(lit ''Previous'', lit ''(none)''), (lit ''Current'', lit ''Offline'')],
       ConsolePrint (lit ''[red][CHANGE][/red] mc:25565 mc:25565 -> Offline ([Errno 111] Connection refused)''),
       SaveState (JDict [(lit ''webhook_url'', JNull),
                         (lit ''interval_sec'', JInt 30),
                         (lit ''verbose_status'', JBool False),
                         (lit ''servers'', JList []),
                         (lit ''last'', JDict [(lit ''mc:25565'',
                            JDict [(lit ''hash'', JStr (lit ''digest-of-offline'')),
                                   (lit ''data'', status_offline
                                      (lit ''[Errno 111] Connection refused''))])])])],
      Inr (JDict [(lit ''webhook_url'', JNull),
                  (lit ''interval_sec'', JInt 30),
                  (lit ''verbose_status'', JBool False),
                  (lit ''servers'', JList []),
                  (lit ''last'', JDict [(lit ''mc:25565'',
                     JDict [(lit ''hash'', JStr (lit ''digest-of-offline'')),
                            (lit ''data'', status_offline
                               (lit ''[Errno 111] Connection refused''))])])]))"
  by (simp add: monitor_once_polls [OF read_target_mc] query_status_refuse compare_baseline_def
        hash_stub_offline default_state_def or_empty_def changed_def format_fields_def fmt_none
        change_line_offline set_baseline_def server_key_mc port_str lit_append send_discord_def
        Let_def)

subsection \<open>The first poll of a server\<close>

text \<open>
  What the first poll does when Rich raises on the line of the change: the call of
  \<open>send_discord\<close> is behind it, the exception leaves \<open>monitor_once\<close>, and the Baseline is
  neither set nor saved.
\<close>

lemma first_poll_print_raises:
  assumes "read_target B srv = Inr (host, port, name, protocol)" and "truthy B host"
    and "baselines state = Some l" and "map_of l (server_key B host port) = None"
    and "py_get state (lit ''webhook_url'') JNull = Inr wh"
    and "fmt B (query_status B connect host port protocol) = Inr current"
    and "change_line B name host port (query_status B connect host port protocol) = Inr line"
    and "send_discord B wh (lit ''['' @ py_str B name @ lit ''] Status Changed'')
            (py_str B host @ lit '':'' @ str_of_int port)
            [(lit ''Previous'', lit ''(none)''), (lit ''Current'', current)] = (posted, None)"
    and "markup_error B line = Some e"
  shows "monitor_once B connect state srv
         = (SendDiscord wh (lit ''['' @ py_str B name @ lit ''] Status Changed'')
              (py_str B host @ lit '':'' @ str_of_int port)
              [(lit ''Previous'', lit ''(none)''), (lit ''Current'', current)] # posted, Inl e)"
  using monitor_once_first [OF assms(1-4), of connect] assms(5-9)
  by (auto simp add: Let_def)


text \<open>
  Claim C3 (the first poll always changes), as the code has it. When the state holds no
  Baseline under the key of a server entry that \<open>monitor_once\<close> polls (the entry has a
  host, a port and a protocol), the call takes the branch of a change, whatever Status
  the query returns, online or offline: it calls \<open>send_discord\<close> with the webhook URL of
  the state, the title, the description and the two fields, the previous one being
  \<open>(none)\<close>. With a webhook URL, \<open>send_discord\<close> posts the payload of the notification to
  it; without one it posts nothing. When neither \<open>send_discord\<close> nor Rich on the line of
  the change nor the write of the state file raises, the call prints the line, puts the
  new Baseline, the digest and the Status, under the key and saves the state so changed.
\<close>

theorem first_poll_changes:
  assumes "read_target B srv = Inr (host, port, name, protocol)" and "truthy B host"
    and "baselines state = Some l" and "map_of l (server_key B host port) = None"
  shows "\<exists>wh h current line state' title desc flds entry posted raised.
      title = lit ''['' @ py_str B name @ lit ''] Status Changed''
      \<and> desc = py_str B host @ lit '':'' @ str_of_int port
      \<and> flds = [(lit ''Previous'', lit ''(none)''), (lit ''Current'', current)]
      \<and> entry = JDict [(lit ''hash'', JStr h),
                        (lit ''data'', query_status B connect host port protocol)]
      \<and> py_get state (lit ''webhook_url'') JNull = Inr wh
      \<and> hash_state B (query_status B connect host port protocol) = Inr h
      \<and> fmt B (query_status B connect host port protocol) = Inr current
      \<and> change_line B name host port (query_status B connect host port protocol) = Inr line
      \<and> send_discord B wh title desc flds = (posted, raised)
      \<and> (truthy B wh \<longrightarrow>
            (\<exists>logged. posted = HttpPost wh (discord_payload title desc flds) # logged))
      \<and> (\<not> truthy B wh \<longrightarrow> posted = [] \<and> raised = None)
      \<and> (\<exists>rest outcome. monitor_once B connect state srv
            = (SendDiscord wh title desc flds # posted @ rest, outcome))
      \<and> set_baseline state (server_key B host port) entry = Inr state'
      \<and> baselines state' = Some (AList.update (server_key B host port) entry l)
      \<and> (raised = None \<longrightarrow> markup_error B line = None \<longrightarrow> write_json B state' = None \<longrightarrow>
            monitor_once B connect state srv
            = (SendDiscord wh title desc flds # posted @ [ConsolePrint line, SaveState state'],
               Inr state'))"
proof -
  let ?status = "query_status B connect host port protocol"
  let ?key = "server_key B host port"
  let ?title = "lit ''['' @ py_str B name @ lit ''] Status Changed''"
  let ?desc = "py_str B host @ lit '':'' @ str_of_int port"
  from monitor_once_first [OF assms, of connect]
  obtain wh h current line state' posted raised where
    wh: "py_get state (lit ''webhook_url'') JNull = Inr wh"
    and h: "hash_state B ?status = Inr h"
    and c: "fmt B ?status = Inr current"
    and ln: "change_line B name host port ?status = Inr line"
    and sb: "set_baseline state ?key (JDict [(lit ''hash'', JStr h), (lit ''data'', ?status)])
             = Inr state'"
    and b': "baselines state'
             = Some (AList.update ?key (JDict [(lit ''hash'', JStr h), (lit ''data'', ?status)]) l)"
    and sd: "send_discord B wh ?title ?desc
               [(lit ''Previous'', lit ''(none)''), (lit ''Current'', current)] = (posted, raised)"
    and m: "monitor_once B connect state srv
          = (let call = SendDiscord wh ?title ?desc
                          [(lit ''Previous'', lit ''(none)''), (lit ''Current'', current)]
             in case raised of
                  Some e \<Rightarrow> (call # posted, Inl e)
                | None \<Rightarrow>
                    (case markup_error B line of
                       Some e \<Rightarrow> (call # posted, Inl e)
                     | None \<Rightarrow>
                         (case write_json B state' of
                            Some e \<Rightarrow> (call # posted @ [ConsolePrint line], Inl e)
                          | None \<Rightarrow>
                              (call # posted @ [ConsolePrint line, SaveState state'],
                               Inr state'))))"
    by blast
  let ?flds = "[(lit ''Previous'', lit ''(none)''), (lit ''Current'', current)]"
  have with_url: "truthy B wh \<longrightarrow>
      (\<exists>logged. posted = HttpPost wh (discord_payload ?title ?desc ?flds) # logged)"
    using send_discord_with_webhook [of B wh ?title ?desc ?flds] sd by auto
  have without_url: "\<not> truthy B wh \<longrightarrow> posted = [] \<and> raised = None"
    using send_discord_without_webhook [of B wh ?title ?desc ?flds] sd by auto
  have starts: "\<exists>rest outcome. monitor_once B connect state srv
      = (SendDiscord wh ?title ?desc ?flds # posted @ rest, outcome)"
  proof (cases raised)
    case (Some e)
    with m have "monitor_once B connect state srv
                 = (SendDiscord wh ?title ?desc ?flds # posted @ [], Inl e)"
      by simp
    then show ?thesis by blast
  next
    case None
    show ?thesis
    proof (cases "markup_error B line")
      case (Some e)
      with m \<open>raised = None\<close> have "monitor_once B connect state srv
                   = (SendDiscord wh ?title ?desc ?flds # posted @ [], Inl e)"
        by simp
      then show ?thesis by blast
    next
      case printed: None
      show ?thesis
      proof (cases "write_json B state'")
        case (Some e)
        with m \<open>raised = None\<close> printed have "monitor_once B connect state srv
              = (SendDiscord wh ?title ?desc ?flds # posted @ [ConsolePrint line], Inl e)"
          by simp
        then show ?thesis by blast
      next
        case None
        with m \<open>raised = None\<close> printed have "monitor_once B connect state srv
              = (SendDiscord wh ?title ?desc ?flds # posted @ [ConsolePrint line, SaveState state'],
                 Inr state')"
          by simp
        then show ?thesis by blast
      qed
    qed
  qed
  have stored: "raised = None \<longrightarrow> markup_error B line = None \<longrightarrow> write_json B state' = None \<longrightarrow>
      monitor_once B connect state srv
      = (SendDiscord wh ?title ?desc ?flds # posted @ [ConsolePrint line, SaveState state'],
         Inr state')"
    using m by simp
  from starts obtain rest outcome where run: "monitor_once B connect state srv
      = (SendDiscord wh ?title ?desc ?flds # posted @ rest, outcome)"
    by blast
  show ?thesis
    by (intro exI conjI, rule refl, rule refl, rule refl, rule refl, rule wh, rule h, rule c,
        rule ln, rule sd, rule with_url, rule without_url, rule run, rule sb, rule b',
        rule stored)
qed

theorem first_poll_changes_witness:
  "(\<exists>state'.
      monitor_once (stub_builtins (Inr JNull)) refuse webhook_state server_mc
      = ([SendDiscord (JStr (lit ''https://discord.example/hook''))
            (lit ''[mc:25565] Status Changed'') (lit ''mc:25565'')
            [(lit ''Previous'', lit ''(none)''), (lit ''Current'', lit ''Offline'')],
          HttpPost (JStr (lit ''https://discord.example/hook''))
            (discord_payload (lit ''[mc:25565] Status Changed'') (lit ''mc:25565'')
               [(lit ''Previous'', lit ''(none)''), (lit ''Current'', lit ''Offline'')]),
          ConsolePrint (lit ''[red][CHANGE][/red] mc:25565 mc:25565 -> Offline ([Errno 111] Connection refused)''),
          SaveState state'], Inr state')
      \<and> baselines state'
          = Some [(lit ''mc:25565'',
                   JDict [(lit ''hash'', JStr (lit ''digest-of-offline'')),
                          (lit ''data'', status_offline (lit ''[Errno 111] Connection refused''))])])
   \<and> (\<exists>state'.
      monitor_once (stub_builtins (Inr server_json))
        (deliver [Chunk [0x04, 0x00], Chunk [0x02, 0x7B, 0x7D]]) webhook_state server_mc
      = ([SendDiscord (JStr (lit ''https://discord.example/hook''))
            (lit ''[mc:25565] Status Changed'') (lit ''mc:25565'')
            [(lit ''Previous'', lit ''(none)''),
             (lit ''Current'', lit ''Online: 5/20 Version: 1.20.1 MOTD: A Server'')],
          HttpPost (JStr (lit ''https://discord.example/hook''))
            (discord_payload (lit ''[mc:25565] Status Changed'') (lit ''mc:25565'')
               [(lit ''Previous'', lit ''(none)''),
                (lit ''Current'', lit ''Online: 5/20 Version: 1.20.1 MOTD: A Server'')]),
          ConsolePrint (lit ''[green][CHANGE][/green] mc:25565 mc:25565 -> Online 5/20, 1.20.1''),
          SaveState state'], Inr state')
      \<and> baselines state'
          = Some [(lit ''mc:25565'',
                   JDict [(lit ''hash'', JStr (lit ''digest-of-online'')),
                          (lit ''data'', status_online (lit ''A Server'') 5 20 (lit ''1.20.1'') 763)])])
   \<and> (\<exists>state'.
      monitor_once (stub_builtins (Inr JNull)) refuse default_state server_mc
      = ([SendDiscord JNull (lit ''[mc:25565] Status Changed'') (lit ''mc:25565'')
            [(lit ''Previous'', lit ''(none)''), (lit ''Current'', lit ''Offline'')],
          ConsolePrint (lit ''[red][CHANGE][/red] mc:25565 mc:25565 -> Offline ([Errno 111] Connection refused)''),
          SaveState state'], Inr state')
      \<and> baselines state'
          = Some [(lit ''mc:25565'',
                   JDict [(lit ''hash'', JStr (lit ''digest-of-offline'')),
                          (lit ''data'', status_offline (lit ''[Errno 111] Connection refused''))])])"
proof (intro conjI)
  have nat5: "str_of_int 5 = lit ''5''" "str_of_int 20 = lit ''20''"
    "str_of_int 25565 = lit ''25565''"
    by (simp_all add: str_of_int_def digits.simps lit_def)
  have none: "map_of [] (server_key B (JStr (lit ''mc'')) 25565) = None" for B
    by simp
  let ?B = "stub_builtins (Inr JNull)"
  from first_poll_changes [OF read_target_mc _ baselines_webhook none, of ?B refuse]
  show "\<exists>state'.
      monitor_once ?B refuse webhook_state server_mc
      = ([SendDiscord (JStr (lit ''https://discord.example/hook''))
            (lit ''[mc:25565] Status Changed'') (lit ''mc:25565'')
            [(lit ''Previous'', lit ''(none)''), (lit ''Current'', lit ''Offline'')],
          HttpPost (JStr (lit ''https://discord.example/hook''))
            (discord_payload (lit ''[mc:25565] Status Changed'') (lit ''mc:25565'')
               [(lit ''Previous'', lit ''(none)''), (lit ''Current'', lit ''Offline'')]),
          ConsolePrint (lit ''[red][CHANGE][/red] mc:25565 mc:25565 -> Offline ([Errno 111] Connection refused)''),
          SaveState state'], Inr state')
      \<and> baselines state'
          = Some [(lit ''mc:25565'',
                   JDict [(lit ''hash'', JStr (lit ''digest-of-offline'')),
                          (lit ''data'', status_offline (lit ''[Errno 111] Connection refused''))])]"
    by (auto simp add: query_status_refuse hash_stub_offline change_line_offline server_key_mc
          webhook_stored send_discord_stub lit_append nat5)
  let ?C = "stub_builtins (Inr server_json)"
  let ?net = "deliver [Chunk [0x04, 0x00], Chunk [0x02, 0x7B, 0x7D]]"
  from first_poll_changes [OF read_target_mc _ baselines_webhook none, of ?C ?net]
  show "\<exists>state'.
      monitor_once ?C ?net webhook_state server_mc
      = ([SendDiscord (JStr (lit ''https://discord.example/hook''))
            (lit ''[mc:25565] Status Changed'') (lit ''mc:25565'')
            [(lit ''Previous'', lit ''(none)''),
             (lit ''Current'', lit ''Online: 5/20 Version: 1.20.1 MOTD: A Server'')],
          HttpPost (JStr (lit ''https://discord.example/hook''))
            (discord_payload (lit ''[mc:25565] Status Changed'') (lit ''mc:25565'')
               [(lit ''Previous'', lit ''(none)''),
                (lit ''Current'', lit ''Online: 5/20 Version: 1.20.1 MOTD: A Server'')]),
          ConsolePrint (lit ''[green][CHANGE][/green] mc:25565 mc:25565 -> Online 5/20, 1.20.1''),
          SaveState state'], Inr state')
      \<and> baselines state'
          = Some [(lit ''mc:25565'',
                   JDict [(lit ''hash'', JStr (lit ''digest-of-online'')),
                          (lit ''data'', status_online (lit ''A Server'') 5 20 (lit ''1.20.1'') 763)])]"
    by (auto simp add: query_status_deliver try_success hash_stub_online change_line_online
          server_key_mc webhook_stored send_discord_stub lit_append nat5)
  from first_poll_changes [OF read_target_mc _ baselines_default none, of ?B refuse]
  show "\<exists>state'.
      monitor_once ?B refuse default_state server_mc
      = ([SendDiscord JNull (lit ''[mc:25565] Status Changed'') (lit ''mc:25565'')
            [(lit ''Previous'', lit ''(none)''), (lit ''Current'', lit ''Offline'')],
          ConsolePrint (lit ''[red][CHANGE][/red] mc:25565 mc:25565 -> Offline ([Errno 111] Connection refused)''),
          SaveState state'], Inr state')
      \<and> baselines state'
          = Some [(lit ''mc:25565'',
                   JDict [(lit ''hash'', JStr (lit ''digest-of-offline'')),
                          (lit ''data'', status_offline (lit ''[Errno 111] Connection refused''))])]"
    by (auto simp add: query_status_refuse hash_stub_offline change_line_offline server_key_mc
          webhook_default lit_append nat5)
qed

text \<open>
  The claim as the specification states it, that the first poll emits a notification,
  does not hold of the state the program starts from, which has no webhook URL: the
  first poll of a server that refuses the connection calls \<open>send_discord\<close>, which returns
  at once, and nothing is posted; the line is printed and the Baseline stored all the
  same.
\<close>

theorem first_poll_without_webhook_posts_nothing:
  "py_get default_state (lit ''webhook_url'') JNull = Inr JNull
   \<and> baselines default_state = Some []
   \<and> send_discord (stub_builtins (Inr JNull)) JNull
        (lit ''[mc:25565] Status Changed'') (lit ''mc:25565'')
        [(lit ''Previous'', lit ''(none)''), (lit ''Current'', lit ''Offline'')]
      = ([], None)
   \<and> fst (monitor_once (stub_builtins (Inr JNull)) refuse default_state server_mc)
      = [SendDiscord JNull (lit ''[mc:25565] Status Changed'') (lit ''mc:25565'')
           [(lit ''Previous'', lit ''(none)''), (lit ''Current'', lit ''Offline'')],
         ConsolePrint (lit ''[red][CHANGE][/red] mc:25565 mc:25565 -> Offline ([Errno 111] Connection refused)''),
         SaveState (JDict [(lit ''webhook_url'', JNull),
                           (lit ''interval_sec'', JInt 30),
                           (lit ''verbose_status'', JBool False),
                           (lit ''servers'', JList []),
                           (lit ''last'', JDict [(lit ''mc:25565'',
                              JDict [(lit ''hash'', JStr (lit ''digest-of-offline'')),
                                     (lit ''data'', status_offline
                                        (lit ''[Errno 111] Connection refused''))])])])]"
  by (simp add: webhook_default baselines_default first_poll_refused send_discord_def)




lemma monitor_once_repeat:
  assumes "read_target B srv = Inr (host, port, name, protocol)" and "truthy B host"
    and "monitor_once B connect state srv = (effs, Inr state')"
    and "hash_state B (query_status B connect' host port protocol)
         = hash_state B (query_status B connect host port protocol)"
  shows "\<exists>effs'. monitor_once B connect' state' srv = (effs', Inr state')
          \<and> (effs' = [] \<or> effs' = [ConsolePrint (lit ''[purple][OK][/purple] '' @ py_str B name
                                                   @ lit '' checked, no change.'')])"
proof -
  from monitor_once_completes [OF assms(1-3)] obtain h where
    h: "hash_state B (query_status B connect host port protocol) = Inr h"
    and d: "state' = state
          \<and> lookup_path state [lit ''last'', server_key B host port, lit ''hash''] = Some (JStr h)
        \<or> (\<exists>l. baselines state = Some l
              \<and> baselines state' = Some (AList.update (server_key B host port)
                   (JDict [(lit ''hash'', JStr h),
                           (lit ''data'', query_status B connect host port protocol)]) l))"
    by blast
  from d have "lookup_path state' [lit ''last'', server_key B host port, lit ''hash'']
               = Some (JStr h)"
    by (auto simp add: lookup_updated)
  moreover from h assms(4) have "hash_state B (query_status B connect' host port protocol) = Inr h"
    by simp
  ultimately show ?thesis
    using assms(1,2) by (intro monitor_once_unchanged)
qed

text \<open>
  Claim C4 (an unchanged poll is silent). When the digest of the new Status is the digest
  stored in the Baseline of the server, \<open>monitor_once\<close> returns the state exactly as it
  was, calls neither \<open>send_discord\<close> nor \<open>save_state\<close>, and at most prints the heartbeat
  line (when \<open>verbose_status\<close> is set). In particular, after any poll that completed, a
  second poll of the same server that finds a Status with the same digest leaves the
  state of the first poll as it is, without notification and without saving.
\<close>

theorem unchanged_poll_is_silent:
  assumes "read_target B srv = Inr (host, port, name, protocol)" and "truthy B host"
  shows "(hash_state B (query_status B connect host port protocol) = Inr h \<longrightarrow>
          lookup_path state [lit ''last'', server_key B host port, lit ''hash''] = Some (JStr h) \<longrightarrow>
          (\<exists>effs. monitor_once B connect state srv = (effs, Inr state)
             \<and> (effs = [] \<or> effs = [ConsolePrint (lit ''[purple][OK][/purple] '' @ py_str B name
                                                     @ lit '' checked, no change.'')])))
       \<and> (monitor_once B connect state srv = (effs1, Inr state1) \<longrightarrow>
          hash_state B (query_status B connect' host port protocol)
            = hash_state B (query_status B connect host port protocol) \<longrightarrow>
          (\<exists>effs2. monitor_once B connect' state1 srv = (effs2, Inr state1)
             \<and> (effs2 = [] \<or> effs2 = [ConsolePrint (lit ''[purple][OK][/purple] '' @ py_str B name
                                                      @ lit '' checked, no change.'')])))"
  using monitor_once_unchanged [OF assms] monitor_once_repeat [OF assms] by blast

theorem unchanged_poll_is_silent_witness:
  "\<exists>effs1 state1 effs2.
      monitor_once (stub_builtins (Inr JNull)) refuse default_state server_mc
        = (effs1, Inr state1)
      \<and> monitor_once (stub_builtins (Inr JNull))
          (deliver [Fail (Error IOError (lit ''timed out''))]) state1 server_mc
        = (effs2, Inr state1)
      \<and> (effs2 = []
          \<or> effs2 = [ConsolePrint (lit ''[purple][OK][/purple] mc:25565 checked, no change.'')])"
proof -
  let ?B = "stub_builtins (Inr JNull)"
  let ?net = "deliver [Fail (Error IOError (lit ''timed out''))]"
  obtain effs1 state1 where
    1: "monitor_once ?B refuse default_state server_mc = (effs1, Inr state1)"
    by (simp add: first_poll_refused)
  have same: "hash_state ?B (query_status ?B ?net (JStr (lit ''mc'')) 25565 767)
              = hash_state ?B (query_status ?B refuse (JStr (lit ''mc'')) 25565 767)"
    by (simp add: query_status_refuse query_status_deliver try_timeout hash_stub_offline)
  from unchanged_poll_is_silent [OF read_target_mc, of ?B refuse _ default_state effs1 state1 ?net]
    1 same
  obtain effs2 where "monitor_once ?B ?net state1 server_mc = (effs2, Inr state1)"
    and "effs2 = [] \<or> effs2 = [ConsolePrint (lit ''[purple][OK][/purple] ''
              @ py_str ?B (JStr (lit ''mc:25565'')) @ lit '' checked, no change.'')]"
    by auto
  with 1 show ?thesis by (auto simp add: lit_append)
qed


subsection \<open>Runs of polls\<close>

lemma monitor_once_baselines:
  assumes "monitor_once B connect state srv = (effs, Inr state')" and "baselines state = Some l"
  shows "\<exists>l'. baselines state' = Some l'
          \<and> fst ` set l' = fst ` set l \<union> set_option (polled_key B srv)"
proof (cases "read_target B srv")
  case (Inl e)
  with assms(1) show ?thesis by (simp add: monitor_once_def)
next
  case (Inr t)
  then obtain host port name protocol where
    t: "read_target B srv = Inr (host, port, name, protocol)"
    by (cases t) auto
  show ?thesis
  proof (cases "truthy B host")
    case False
    with t assms show ?thesis by (simp add: monitor_once_def polled_key_def)
  next
    case True
    with t have pk: "polled_key B srv = Some (server_key B host port)"
      by (simp add: polled_key_def)
    from monitor_once_completes [OF t True assms(1)] obtain h where
      "state' = state
         \<and> lookup_path state [lit ''last'', server_key B host port, lit ''hash''] = Some (JStr h)
       \<or> (\<exists>l. baselines state = Some l
             \<and> baselines state' = Some (AList.update (server_key B host port)
                  (JDict [(lit ''hash'', JStr h),
                          (lit ''data'', query_status B connect host port protocol)]) l))"
      by blast
    then show ?thesis
    proof
      assume a: "state' = state
        \<and> lookup_path state [lit ''last'', server_key B host port, lit ''hash''] = Some (JStr h)"
      with assms(2) obtain v where "map_of l (server_key B host port) = Some v"
        by (auto simp add: lookup_baseline split: option.splits)
      then have "server_key B host port \<in> fst ` set l"
        by (metis domI dom_map_of_conv_image_fst)
      with a assms(2) pk show ?thesis by auto
    next
      assume "\<exists>l. baselines state = Some l
             \<and> baselines state' = Some (AList.update (server_key B host port)
                  (JDict [(lit ''hash'', JStr h),
                          (lit ''data'', query_status B connect host port protocol)]) l)"
      with assms(2) pk show ?thesis by (auto simp add: dom_update)
    qed
  qed
qed

lemma run_polls_baselines:
  "run_polls B state polls = (effs, Inr state') \<Longrightarrow> baselines state = Some l \<Longrightarrow>
   \<exists>l'. baselines state' = Some l'
      \<and> fst ` set l' = fst ` set l \<union> {k. \<exists>net srv. (net, srv) \<in> set polls \<and> polled_key B srv = Some k}"
proof (induction polls arbitrary: state l effs)
  case Nil
  then show ?case by simp
next
  case (Cons p polls)
  obtain net srv where p: "p = (net, srv)" by (cases p)
  obtain effs1 r1 where m: "monitor_once B net state srv = (effs1, r1)"
    by (cases "monitor_once B net state srv")
  with Cons.prems(1) p obtain state1 where r1: "r1 = Inr state1"
    by (cases r1) auto
  from m r1 Cons.prems(1) p obtain effs2 where
    rest: "run_polls B state1 polls = (effs2, Inr state')"
    by (cases "run_polls B state1 polls") auto
  from monitor_once_baselines [OF m [unfolded r1] Cons.prems(2)] obtain l1 where
    l1: "baselines state1 = Some l1"
    and k1: "fst ` set l1 = fst ` set l \<union> set_option (polled_key B srv)"
    by blast
  from Cons.IH [OF rest l1] obtain l' where l': "baselines state' = Some l'"
    and k': "fst ` set l' = fst ` set l1
              \<union> {k. \<exists>net srv. (net, srv) \<in> set polls \<and> polled_key B srv = Some k}"
    by blast
  have "fst ` set l' = fst ` set l
          \<union> {k. \<exists>net srv. (net, srv) \<in> set (p # polls) \<and> polled_key B srv = Some k}"
    unfolding k' k1 p by (cases "polled_key B srv") auto
  with l' show ?case by blast
qed


subsection \<open>What the notification says\<close>

lemma compare_prev_data:
  assumes "compare_baseline B state key status = Inr (h, prev, ph)"
    and "py_get prev (lit ''data'') JNull = Inr old"
  shows "old = (case lookup_path state [lit ''last'', key, lit ''data''] of
                  Some d \<Rightarrow> d | None \<Rightarrow> JNull)"
proof -
  from assms(1) obtain lv where l: "py_get state (lit ''last'') JNull = Inr lv"
    and p: "py_get (or_empty B lv) key (JDict []) = Inr prev"
    by (auto simp add: compare_baseline_def and_then_Inr_iff)
  from l obtain kvs where s: "state = JDict kvs" by (auto dest: py_get_Inr_dict)
  from p obtain bs where b: "or_empty B lv = JDict bs" by (auto dest: py_get_Inr_dict)
  from assms(2) obtain e where e: "prev = JDict e" by (auto dest: py_get_Inr_dict)
  show ?thesis
  proof (cases "map_of bs key")
    case None
    with p b e have "e = []" by simp
    with assms(2) e have old: "old = JNull" by simp
    have "lookup_path state [lit ''last'', key, lit ''data''] = None"
    proof (cases "lv = JDict bs")
      case True
      with l s None show ?thesis by (auto split: option.splits)
    next
      case False
      with b have "\<not> truthy B lv" by (auto simp add: or_empty_def split: if_splits)
      with l s show ?thesis by (cases lv) (auto split: option.splits)
    qed
    with old show ?thesis by simp
  next
    case (Some v)
    with p b e have v: "v = JDict e" by simp
    from Some have "bs \<noteq> []" by auto
    with b have "lv = JDict bs" by (auto simp add: or_empty_def split: if_splits)
    with l s Some v assms(2) e show ?thesis by (auto split: option.splits)
  qed
qed

lemma changed_notifies:
  assumes "SendDiscord wh title desc flds \<in> set (fst (changed B state name host port key status h prev))"
  shows "\<exists>old. py_get prev (lit ''data'') JNull = Inr old \<and> format_fields B old status = Inr flds"
  using assms
  by (auto simp add: changed_def Let_def and_then_Inr_iff
        split: sum.splits prod.splits option.splits dest: send_discord_returns_no_call)

lemma unchanged_silent:
  "SendDiscord wh title desc flds \<notin> set (fst (unchanged B state name))"
  by (auto simp add: unchanged_def split: sum.splits)

lemma monitor_once_notifies:
  assumes "read_target B srv = Inr (host, port, name, protocol)"
    and "SendDiscord wh title desc flds \<in> set (fst (monitor_once B connect state srv))"
  shows "\<exists>p c. flds = [(lit ''Previous'', p), (lit ''Current'', c)]
           \<and> fmt B (case lookup_path state [lit ''last'', server_key B host port, lit ''data''] of
                      Some old \<Rightarrow> old | None \<Rightarrow> JNull) = Inr p
           \<and> fmt B (query_status B connect host port protocol) = Inr c"
proof -
  let ?key = "server_key B host port"
  let ?status = "query_status B connect host port protocol"
  from assms have host: "truthy B host"
    by (auto simp add: monitor_once_def split: if_splits)
  with assms obtain h prev ph where
    cb: "compare_baseline B state ?key ?status = Inr (h, prev, ph)"
    by (cases "compare_baseline B state ?key ?status") (auto simp add: monitor_once_polls)
  with assms host have "ph \<noteq> JStr h"
    by (auto simp add: monitor_once_polls unchanged_silent)
  with assms host cb have
    "SendDiscord wh title desc flds \<in> set (fst (changed B state name host port ?key ?status h prev))"
    by (simp add: monitor_once_polls)
  then obtain old where old: "py_get prev (lit ''data'') JNull = Inr old"
    and ff: "format_fields B old ?status = Inr flds"
    using changed_notifies by blast
  from compare_prev_data [OF cb old] format_fields_Inr [OF ff] show ?thesis by auto
qed

lemma fmt_online_dict:
  assumes "map_of kvs (lit ''online'') = Some online" and "truthy B online"
    and "map_of kvs (lit ''players'') = Some (JDict ps)"
    and "map_of kvs (lit ''version'') = Some (JDict vs)"
  shows "fmt B (JDict kvs)
    = Inr (lit ''Online: ''
           @ py_str B (case map_of ps (lit ''online'') of Some n \<Rightarrow> n | None \<Rightarrow> JInt 0)
           @ lit ''/''
           @ py_str B (case map_of ps (lit ''max'') of Some n \<Rightarrow> n | None \<Rightarrow> JInt 0)
           @ lit '' Version: ''
           @ py_str B (case map_of vs (lit ''name'') of Some n \<Rightarrow> n | None \<Rightarrow> JStr [])
           @ lit '' MOTD: ''
           @ py_str B (case map_of kvs (lit ''motd'') of Some m \<Rightarrow> m | None \<Rightarrow> JStr []))"
proof -
  from assms(1) have "kvs \<noteq> []" by auto
  with assms show ?thesis by (simp add: fmt_def)
qed

text \<open>
  Claim C10 (the two fields of the notification). \<open>fmt\<close> renders nothing stored
  (\<open>None\<close>) as \<open>(none)\<close>; a Status whose \<open>online\<close> is false or missing, the offline
  Status of \<open>query_status\<close> among them, as \<open>Offline\<close>; and a Status whose \<open>online\<close> is
  true as \<open>Online: \<close>players.online\<open>/\<close>players.max\<open> Version: \<close>version.name\<open> MOTD: \<close>motd.
  \<open>_format_fields\<close> puts \<open>fmt\<close> of the old Status under \<open>Previous\<close> and \<open>fmt\<close> of the new
  one under \<open>Current\<close>, and whenever \<open>monitor_once\<close> calls \<open>send_discord\<close> the fields
  are these two, for the Status stored in the Baseline of the server (nothing, when
  there is no Baseline) and for the Status just queried.
\<close>

theorem notification_fields:
  "fmt B JNull = Inr (lit ''(none)'')
   \<and> fmt B (status_offline msg) = Inr (lit ''Offline'')
   \<and> (kvs \<noteq> [] \<longrightarrow>
        map_of kvs (lit ''online'') = None \<or> map_of kvs (lit ''online'') = Some (JBool False) \<longrightarrow>
        fmt B (JDict kvs) = Inr (lit ''Offline''))
   \<and> fmt B (status_online motd po pm vn vp)
       = Inr (lit ''Online: '' @ str_of_int po @ lit ''/'' @ str_of_int pm
              @ lit '' Version: '' @ vn @ lit '' MOTD: '' @ motd)
   \<and> (map_of kvs (lit ''online'') = Some (JBool True) \<longrightarrow>
        map_of kvs (lit ''players'') = Some (JDict ps) \<longrightarrow>
        map_of kvs (lit ''version'') = Some (JDict vs) \<longrightarrow>
        fmt B (JDict kvs)
        = Inr (lit ''Online: ''
               @ py_str B (case map_of ps (lit ''online'') of Some n \<Rightarrow> n | None \<Rightarrow> JInt 0)
               @ lit ''/''
               @ py_str B (case map_of ps (lit ''max'') of Some n \<Rightarrow> n | None \<Rightarrow> JInt 0)
               @ lit '' Version: ''
               @ py_str B (case map_of vs (lit ''name'') of Some n \<Rightarrow> n | None \<Rightarrow> JStr [])
               @ lit '' MOTD: ''
               @ py_str B (case map_of kvs (lit ''motd'') of Some m \<Rightarrow> m | None \<Rightarrow> JStr [])))
   \<and> (fmt B old = Inr p \<longrightarrow> fmt B new = Inr c \<longrightarrow>
        format_fields B old new = Inr [(lit ''Previous'', p), (lit ''Current'', c)])
   \<and> (read_target B srv = Inr (host, port, name, protocol) \<longrightarrow>
        SendDiscord wh title desc flds \<in> set (fst (monitor_once B connect state srv)) \<longrightarrow>
        (\<exists>p c. flds = [(lit ''Previous'', p), (lit ''Current'', c)]
           \<and> fmt B (case lookup_path state [lit ''last'', server_key B host port, lit ''data''] of
                      Some old \<Rightarrow> old | None \<Rightarrow> JNull) = Inr p
           \<and> fmt B (query_status B connect host port protocol) = Inr c))"
proof (intro conjI impI)
  show "fmt B JNull = Inr (lit ''(none)'')" by (simp add: fmt_none)
  show "fmt B (status_offline msg) = Inr (lit ''Offline'')" by simp
  show "fmt B (status_online motd po pm vn vp)
       = Inr (lit ''Online: '' @ str_of_int po @ lit ''/'' @ str_of_int pm
              @ lit '' Version: '' @ vn @ lit '' MOTD: '' @ motd)" by simp
next
  assume "kvs \<noteq> []"
    and "map_of kvs (lit ''online'') = None \<or> map_of kvs (lit ''online'') = Some (JBool False)"
  then show "fmt B (JDict kvs) = Inr (lit ''Offline'')"
    by (auto simp add: fmt_offline_dict)
next
  assume "map_of kvs (lit ''online'') = Some (JBool True)"
    and "map_of kvs (lit ''players'') = Some (JDict ps)"
    and "map_of kvs (lit ''version'') = Some (JDict vs)"
  then show "fmt B (JDict kvs)
        = Inr (lit ''Online: ''
               @ py_str B (case map_of ps (lit ''online'') of Some n \<Rightarrow> n | None \<Rightarrow> JInt 0)
               @ lit ''/''
               @ py_str B (case map_of ps (lit ''max'') of Some n \<Rightarrow> n | None \<Rightarrow> JInt 0)
               @ lit '' Version: ''
               @ py_str B (case map_of vs (lit ''name'') of Some n \<Rightarrow> n | None \<Rightarrow> JStr [])
               @ lit '' MOTD: ''
               @ py_str B (case map_of kvs (lit ''motd'') of Some m \<Rightarrow> m | None \<Rightarrow> JStr []))"
    using fmt_online_dict [of kvs "JBool True" B ps vs] by simp
next
  assume "fmt B old = Inr p" and "fmt B new = Inr c"
  then show "format_fields B old new = Inr [(lit ''Previous'', p), (lit ''Current'', c)]"
    by (rule format_fields_eq)
next
  assume "read_target B srv = Inr (host, port, name, protocol)"
    and "SendDiscord wh title desc flds \<in> set (fst (monitor_once B connect state srv))"
  then show "\<exists>p c. flds = [(lit ''Previous'', p), (lit ''Current'', c)]
           \<and> fmt B (case lookup_path state [lit ''last'', server_key B host port, lit ''data''] of
                      Some old \<Rightarrow> old | None \<Rightarrow> JNull) = Inr p
           \<and> fmt B (query_status B connect host port protocol) = Inr c"
    by (rule monitor_once_notifies)
qed


theorem notification_fields_witness:
  "format_fields (stub_builtins (Inr JNull)) JNull (status_offline (lit ''timed out''))
     = Inr [(lit ''Previous'', lit ''(none)''), (lit ''Current'', lit ''Offline'')]
   \<and> format_fields (stub_builtins (Inr JNull)) (status_offline (lit ''timed out''))
       (status_online (lit ''A Server'') 5 20 (lit ''1.20.1'') 763)
     = Inr [(lit ''Previous'', lit ''Offline''),
            (lit ''Current'', lit ''Online: 5/20 Version: 1.20.1 MOTD: A Server'')]
   \<and> SendDiscord JNull (lit ''[mc:25565] Status Changed'') (lit ''mc:25565'')
         [(lit ''Previous'', lit ''(none)''), (lit ''Current'', lit ''Offline'')]
       \<in> set (fst (monitor_once (stub_builtins (Inr JNull)) refuse default_state server_mc))
   \<and> fmt (stub_builtins (Inr JNull))
         (case lookup_path default_state [lit ''last'', lit ''mc:25565'', lit ''data''] of
            Some old \<Rightarrow> old | None \<Rightarrow> JNull)
       = Inr (lit ''(none)'')
   \<and> fmt (stub_builtins (Inr JNull))
         (query_status (stub_builtins (Inr JNull)) refuse (JStr (lit ''mc'')) 25565 767)
       = Inr (lit ''Offline'')"
proof -
  let ?B = "stub_builtins (Inr JNull)"
  let ?off = "status_offline (lit ''timed out'')"
  let ?on = "status_online (lit ''A Server'') 5 20 (lit ''1.20.1'') 763"
  have nums: "str_of_int 5 = lit ''5''" "str_of_int 20 = lit ''20''"
    by (simp_all add: str_of_int_def digits.simps lit_def)
  note inst = notification_fields [where B = ?B and msg = "lit ''timed out''"
      and motd = "lit ''A Server''" and po = 5 and pm = 20 and vn = "lit ''1.20.1''" and vp = 763]
  have none: "fmt ?B JNull = Inr (lit ''(none)'')"
    and off: "fmt ?B ?off = Inr (lit ''Offline'')"
    and on: "fmt ?B ?on = Inr (lit ''Online: 5/20 Version: 1.20.1 MOTD: A Server'')"
    using inst by (simp_all add: nums lit_append)
  have a: "format_fields ?B JNull ?off
           = Inr [(lit ''Previous'', lit ''(none)''), (lit ''Current'', lit ''Offline'')]"
    using inst [where old = JNull and new = ?off and p = "lit ''(none)''" and c = "lit ''Offline''"]
      none off by blast
  have b: "format_fields ?B ?off ?on
           = Inr [(lit ''Previous'', lit ''Offline''),
                  (lit ''Current'', lit ''Online: 5/20 Version: 1.20.1 MOTD: A Server'')]"
    using inst [where old = ?off and new = ?on and p = "lit ''Offline''"
        and c = "lit ''Online: 5/20 Version: 1.20.1 MOTD: A Server''"]
      off on by blast
  obtain current where
    m: "SendDiscord JNull (lit ''[mc:25565] Status Changed'') (lit ''mc:25565'')
          [(lit ''Previous'', lit ''(none)''), (lit ''Current'', current)]
        \<in> set (fst (monitor_once ?B refuse default_state server_mc))"
    by (simp add: first_poll_refused)
  from inst [where srv = server_mc and host = "JStr (lit ''mc'')" and port = 25565
      and name = "JStr (lit ''mc:25565'')" and protocol = 767 and connect = refuse
      and state = default_state and wh = JNull and title = "lit ''[mc:25565] Status Changed''"
      and desc = "lit ''mc:25565''"
      and flds = "[(lit ''Previous'', lit ''(none)''), (lit ''Current'', current)]"]
    read_target_mc [of ?B] m
  have c: "fmt ?B (case lookup_path default_state
                         [lit ''last'', server_key ?B (JStr (lit ''mc'')) 25565, lit ''data''] of
                     Some old \<Rightarrow> old | None \<Rightarrow> JNull) = Inr (lit ''(none)'')"
    and d: "fmt ?B (query_status ?B refuse (JStr (lit ''mc'')) 25565 767) = Inr current"
    by auto
  from d have cur: "current = lit ''Offline''"
    by (simp add: query_status_refuse)
  from a b m c d cur show ?thesis by (simp add: server_key_mc)
qed


subsection \<open>When a Baseline exists\<close>

lemma polled_key_mc: "polled_key B server_mc = Some (lit ''mc:25565'')"
  by (simp add: polled_key_def read_target_mc server_key_mc)

text \<open>
  Claim C8 (when a Baseline exists), as the code has it. In every state reached by calls
  of \<open>monitor_once\<close> that completed, a Baseline exists under a key exactly when one
  existed at the start or at least one poll of a server entry with that key has
  completed, whatever Status the poll returned: a poll that fails, returning an offline
  Status, creates the Baseline as a successful one does.
\<close>

theorem baseline_exists_iff_polled:
  assumes "baselines state = Some l" and "run_polls B state polls = (effs, Inr state')"
  shows "\<exists>l'. baselines state' = Some l'
      \<and> fst ` set l' = fst ` set l
           \<union> {k. \<exists>net srv. (net, srv) \<in> set polls \<and> polled_key B srv = Some k}"
  using assms(2,1) by (rule run_polls_baselines)

theorem baseline_exists_iff_polled_witness:
  "\<exists>effs state' l'.
      run_polls (stub_builtins (Inr JNull)) default_state [(refuse, server_mc)]
        = (effs, Inr state')
      \<and> baselines state' = Some l' \<and> fst ` set l' = {lit ''mc:25565''}"
proof -
  let ?B = "stub_builtins (Inr JNull)"
  obtain effs state' where
    r: "run_polls ?B default_state [(refuse, server_mc)] = (effs, Inr state')"
    by (simp add: first_poll_refused)
  from baseline_exists_iff_polled [OF baselines_default r] obtain l' where
    "baselines state' = Some l'"
    and "fst ` set l' = {k. \<exists>net srv. (net, srv) \<in> set [(refuse, server_mc)]
                                        \<and> polled_key ?B srv = Some k}"
    by auto
  moreover have "{k. \<exists>net srv. (net, srv) \<in> set [(refuse, server_mc)]
                               \<and> polled_key ?B srv = Some k} = {lit ''mc:25565''}"
    by (auto simp add: polled_key_mc)
  ultimately show ?thesis using r by auto
qed

text \<open>
  The claim as the specification states it, that a poll which fails creates no Baseline,
  does not hold: the first poll of a server that refuses the connection returns an
  offline Status, and \<open>monitor_once\<close> stores this Status and its digest as the Baseline
  of the server.
\<close>

theorem failed_poll_creates_baseline:
  "query_status (stub_builtins (Inr JNull)) refuse (JStr (lit ''mc'')) 25565 767
     = status_offline (lit ''[Errno 111] Connection refused'')
   \<and> baselines default_state = Some []
   \<and> snd (monitor_once (stub_builtins (Inr JNull)) refuse default_state server_mc)
     = Inr (JDict [(lit ''webhook_url'', JNull),
                   (lit ''interval_sec'', JInt 30),
                   (lit ''verbose_status'', JBool False),
                   (lit ''servers'', JList []),
                   (lit ''last'', JDict [(lit ''mc:25565'',
                      JDict [(lit ''hash'', JStr (lit ''digest-of-offline'')),
                             (lit ''data'', status_offline
                                (lit ''[Errno 111] Connection refused''))])])])
   \<and> baselines (JDict [(lit ''webhook_url'', JNull),
                   (lit ''interval_sec'', JInt 30),
                   (lit ''verbose_status'', JBool False),
                   (lit ''servers'', JList []),
                   (lit ''last'', JDict [(lit ''mc:25565'',
                      JDict [(lit ''hash'', JStr (lit ''digest-of-offline'')),
                             (lit ''data'', status_offline
                                (lit ''[Errno 111] Connection refused''))])])])
     = Some [(lit ''mc:25565'',
              JDict [(lit ''hash'', JStr (lit ''digest-of-offline'')),
                     (lit ''data'', status_offline (lit ''[Errno 111] Connection refused''))])]"
  by (simp add: query_status_refuse baselines_default first_poll_refused)
    (simp add: baselines_def)

end
